theory Spec2Isabelle
  imports Complex_Main "HOL-Library.AList"
begin

section \<open>Common conventions\<close>

text \<open>
  The library is TypeScript. Its numbers are IEEE doubles; they are idealised here as
  reals, so coordinates are copied, added and divided without rounding error and
  without NaN or infinities. \<open>Math.round\<close> rounds to the nearest integer, a tie going
  towards plus infinity.

  A JavaScript \<open>Map\<close> keeps its keys in insertion order, and \<open>set\<close> on a key that is
  present replaces the value in place: it is an association list with
  \<open>AList.update\<close>, \<open>AList.delete\<close> and \<open>map_of\<close>. A JavaScript \<open>Set\<close> of listeners
  is a duplicate-free list in insertion order; a listener (a function reference) is
  a natural number. The listener table \<open>Map<type, Set<listener>>\<close> is a function from
  the event type to that list, the empty list standing for a key that is absent.
  Listeners are observers: the model records each call of a listener with the
  payload it receives, in call order, and a listener does not call back into the
  manager while it runs.

  The map renderer (sources, layers, cursor, images) is an external collaborator;
  calls that only repaint it (\<open>updateSource\<close>) are left out.
\<close>

type_synonym listener = nat

definition Set_add :: "'a list \<Rightarrow> 'a \<Rightarrow> 'a list" where
  "Set_add xs x = (if x \<in> set xs then xs else xs @ [x])"

definition Set_delete :: "'a list \<Rightarrow> 'a \<Rightarrow> 'a list" where
  "Set_delete xs x = removeAll x xs"

definition Math_round :: "real \<Rightarrow> real" where
  "Math_round x = of_int \<lfloor>x + 1 / 2\<rfloor>"

record position =
  lon :: real
  lat :: real

section \<open>Handles (src/lib/types.ts)\<close>

datatype handle_type = Resize | Rotate | Move | Curve | Label | Snap

datatype handle_shape = Square | Circle | Diamond | Triangle

datatype axis = X | Y

text \<open>Every field of \<open>constraints\<close> is optional; so is \<open>constraints\<close> itself.\<close>

record constraints =
  snapToGrid :: "bool option"
  lockAxis :: "axis option"
  proportional :: "bool option"

record Handle =
  h_id :: string
  h_type :: handle_type
  h_shape :: handle_shape
  h_position :: position
  h_color :: string
  h_size :: real
  h_cursor :: string
  h_visible :: bool
  h_draggable :: bool
  h_constraints :: "constraints option"

text \<open>\<open>Partial<Handle>\<close>: each property present or absent.\<close>

record PartialHandle =
  p_id :: "string option"
  p_type :: "handle_type option"
  p_shape :: "handle_shape option"
  p_position :: "position option"
  p_color :: "string option"
  p_size :: "real option"
  p_cursor :: "string option"
  p_visible :: "bool option"
  p_draggable :: "bool option"
  p_constraints :: "constraints option"

text \<open>A whole handle passed where a \<open>Partial<Handle>\<close> is expected.\<close>

definition as_partial :: "Handle \<Rightarrow> PartialHandle" where
  "as_partial h =
     \<lparr>p_id = Some (h_id h), p_type = Some (h_type h), p_shape = Some (h_shape h),
      p_position = Some (h_position h), p_color = Some (h_color h),
      p_size = Some (h_size h), p_cursor = Some (h_cursor h),
      p_visible = Some (h_visible h), p_draggable = Some (h_draggable h),
      p_constraints = h_constraints h\<rparr>"

text \<open>The object spread \<open>{ ...handle, ...newProps }\<close>: a property of \<open>newProps\<close> that is
  present wins.\<close>

definition spread :: "Handle \<Rightarrow> PartialHandle \<Rightarrow> Handle" where
  "spread handle newProps =
     \<lparr>h_id = (case p_id newProps of None \<Rightarrow> h_id handle | Some v \<Rightarrow> v),
      h_type = (case p_type newProps of None \<Rightarrow> h_type handle | Some v \<Rightarrow> v),
      h_shape = (case p_shape newProps of None \<Rightarrow> h_shape handle | Some v \<Rightarrow> v),
      h_position = (case p_position newProps of None \<Rightarrow> h_position handle | Some v \<Rightarrow> v),
      h_color = (case p_color newProps of None \<Rightarrow> h_color handle | Some v \<Rightarrow> v),
      h_size = (case p_size newProps of None \<Rightarrow> h_size handle | Some v \<Rightarrow> v),
      h_cursor = (case p_cursor newProps of None \<Rightarrow> h_cursor handle | Some v \<Rightarrow> v),
      h_visible = (case p_visible newProps of None \<Rightarrow> h_visible handle | Some v \<Rightarrow> v),
      h_draggable = (case p_draggable newProps of None \<Rightarrow> h_draggable handle | Some v \<Rightarrow> v),
      h_constraints =
        (case p_constraints newProps of None \<Rightarrow> h_constraints handle | Some v \<Rightarrow> Some v)\<rparr>"

datatype HandleEventType = Dragstart | Drag | Dragend | Click | Mouseover | Mouseout

text \<open>The payload of a handle event; \<open>originalEvent\<close> is the browser's event and carries
  nothing the manager reads.\<close>

record HandleEvent =
  he_type :: HandleEventType
  he_handle :: Handle
  he_position :: position

section \<open>HandleManager (src/lib/HandleManager.ts)\<close>

record dragState =
  ds_handle :: Handle
  initialPosition :: position
  currentPosition :: position

text \<open>
  The manager's fields. Handle objects are held by value: the handle of the drag
  session is the object found in \<open>handles\<close> at pointer-down; a drag event assigns
  its \<open>position\<close> and \<open>updateHandle\<close> then stores a fresh copy under the handle's
  id. This agrees with the references of the source as long as a handle is stored
  under its own id, which is how \<open>addHandle\<close> and \<open>addHandles\<close> store it, and as long
  as clients change handles through the manager. \<open>notified\<close> is the record of
  listener calls.
\<close>

record HandleManager =
  handles :: "(string \<times> Handle) list"
  eventListeners :: "HandleEventType \<Rightarrow> listener list"
  activeHandle :: "string option"
  dragState :: "dragState option"
  notified :: "(listener \<times> HandleEvent) list"

definition new_HandleManager :: HandleManager where
  "new_HandleManager =
     \<lparr>handles = [], eventListeners = (\<lambda>_. []), activeHandle = None, dragState = None,
      notified = []\<rparr>"

text \<open>
  What the handlers read of a \<open>MapMouseEvent\<close>: the pointer's geographic position and,
  for an event delivered on the handle layer, the \<open>properties?.id\<close> of each feature
  under the pointer (\<open>None\<close> where a feature has none). An event without \<open>features\<close>
  has the empty list.
\<close>

record MapMouseEvent =
  lngLat :: position
  features :: "string option list"

definition on_h :: "HandleEventType \<Rightarrow> listener \<Rightarrow> HandleManager \<Rightarrow> HandleManager" where
  "on_h type l hm =
     hm\<lparr>eventListeners := (eventListeners hm)(type := Set_add (eventListeners hm type) l)\<rparr>"

definition off_h :: "HandleEventType \<Rightarrow> listener \<Rightarrow> HandleManager \<Rightarrow> HandleManager" where
  "off_h type l hm =
     hm\<lparr>eventListeners := (eventListeners hm)(type := Set_delete (eventListeners hm type) l)\<rparr>"

definition emitEvent_h :: "HandleEventType \<Rightarrow> HandleEvent \<Rightarrow> HandleManager \<Rightarrow> HandleManager" where
  "emitEvent_h type event hm =
     hm\<lparr>notified := notified hm @ map (\<lambda>l. (l, event)) (eventListeners hm type)\<rparr>"

text \<open>
  The grid snap of \<open>applyConstraints\<close> is the one place of the manager that computes
  with coordinates instead of copying them. Below it is the exact quotient, rounding
  and product over the reals. The source computes the same expression in double
  arithmetic, whose result can differ from the exact one in the last place and, next
  to a tie, by one grid step; so nothing is derived here about the value of a snapped
  coordinate, and the snapped coordinate is only ever named by this expression.
\<close>

definition gridSize :: real where
  "gridSize = 0.001"

definition applyConstraints :: "HandleManager \<Rightarrow> Handle \<Rightarrow> position \<Rightarrow> position" where
  "applyConstraints hm handle newPosition =
     (case h_constraints handle of
        None \<Rightarrow> newPosition
      | Some c \<Rightarrow>
          let result = newPosition;
              result =
                (case lockAxis c of
                   None \<Rightarrow> result
                 | Some a \<Rightarrow>
                     (case dragState hm of
                        None \<Rightarrow> result
                      | Some ds \<Rightarrow>
                          (case a of
                             X \<Rightarrow> result\<lparr>lon := lon (initialPosition ds)\<rparr>
                           | Y \<Rightarrow> result\<lparr>lat := lat (initialPosition ds)\<rparr>)));
              result =
                (if snapToGrid c = Some True
                 then \<lparr>lon = Math_round (lon result / gridSize) * gridSize,
                       lat = Math_round (lat result / gridSize) * gridSize\<rparr>
                 else result)
          in result)"

definition addHandle :: "Handle \<Rightarrow> HandleManager \<Rightarrow> HandleManager" where
  "addHandle handle hm = hm\<lparr>handles := AList.update (h_id handle) handle (handles hm)\<rparr>"

definition addHandles :: "Handle list \<Rightarrow> HandleManager \<Rightarrow> HandleManager" where
  "addHandles hs hm = fold addHandle hs hm"

definition removeHandle :: "string \<Rightarrow> HandleManager \<Rightarrow> HandleManager \<times> bool" where
  "removeHandle handleId hm =
     (let removed = (map_of (handles hm) handleId \<noteq> None)
      in (hm\<lparr>handles := AList.delete handleId (handles hm)\<rparr>, removed))"

definition updateHandle :: "string \<Rightarrow> PartialHandle \<Rightarrow> HandleManager \<Rightarrow> HandleManager \<times> Handle option" where
  "updateHandle handleId newProps hm =
     (case map_of (handles hm) handleId of
        None \<Rightarrow> (hm, None)
      | Some handle \<Rightarrow>
          let updatedHandle = spread handle newProps
          in (hm\<lparr>handles := AList.update handleId updatedHandle (handles hm)\<rparr>,
              Some updatedHandle))"

definition clearHandles_h :: "HandleManager \<Rightarrow> HandleManager" where
  "clearHandles_h hm = hm\<lparr>handles := []\<rparr>"

text \<open>The three pointer handlers installed by \<open>setupEventHandlers\<close>.\<close>

definition mousemove :: "MapMouseEvent \<Rightarrow> HandleManager \<Rightarrow> HandleManager" where
  "mousemove e hm =
     (case dragState hm of
        None \<Rightarrow> hm
      | Some ds \<Rightarrow>
          let handle = ds_handle ds;
              position = lngLat e;
              constrainedPosition = applyConstraints hm handle position;
              handle = handle\<lparr>h_position := constrainedPosition\<rparr>;
              hm = hm\<lparr>dragState :=
                     Some (ds\<lparr>ds_handle := handle, currentPosition := constrainedPosition\<rparr>)\<rparr>;
              hm = fst (updateHandle (h_id handle) (as_partial handle) hm)
          in emitEvent_h Drag
               \<lparr>he_type = Drag, he_handle = handle, he_position = constrainedPosition\<rparr> hm)"

definition mousedown :: "MapMouseEvent \<Rightarrow> HandleManager \<Rightarrow> HandleManager" where
  "mousedown e hm =
     (case features e of
        [] \<Rightarrow> hm
      | feature # _ \<Rightarrow>
          (case feature of
             None \<Rightarrow> hm
           | Some handleId \<Rightarrow>
               (case map_of (handles hm) handleId of
                  None \<Rightarrow> hm
                | Some handle \<Rightarrow>
                    if h_draggable handle
                    then emitEvent_h Dragstart
                           \<lparr>he_type = Dragstart, he_handle = handle,
                            he_position = h_position handle\<rparr>
                           (hm\<lparr>activeHandle := Some handleId,
                               dragState :=
                                 Some \<lparr>ds_handle = handle,
                                       initialPosition = h_position handle,
                                       currentPosition = h_position handle\<rparr>\<rparr>)
                    else hm)))"

definition mouseup :: "MapMouseEvent \<Rightarrow> HandleManager \<Rightarrow> HandleManager" where
  "mouseup e hm =
     (case dragState hm of
        None \<Rightarrow> hm
      | Some ds \<Rightarrow>
          let handle = ds_handle ds;
              hm = emitEvent_h Dragend
                     \<lparr>he_type = Dragend, he_handle = handle,
                      he_position = h_position handle\<rparr> hm
          in hm\<lparr>dragState := None, activeHandle := None\<rparr>)"


text \<open>
  \<open>createHandle\<close> and its per-type tables. \<open>generateId\<close> draws a random identifier;
  the identifier drawn is an argument, as is the map's centre that stands in for a
  position that was not given.
\<close>

definition getColorForType :: "handle_type \<Rightarrow> string" where
  "getColorForType t =
     (case t of Resize \<Rightarrow> ''#ff5733'' | Rotate \<Rightarrow> ''#33bbff'' | Move \<Rightarrow> ''#33ff57''
      | Curve \<Rightarrow> ''#b533ff'' | Label \<Rightarrow> ''#ffbb33'' | Snap \<Rightarrow> ''#ff33bb'')"

definition getCursorForType :: "handle_type \<Rightarrow> string" where
  "getCursorForType t =
     (case t of Resize \<Rightarrow> ''nwse-resize'' | Rotate \<Rightarrow> ''crosshair'' | Move \<Rightarrow> ''move''
      | Curve \<Rightarrow> ''pointer'' | Label \<Rightarrow> ''text'' | Snap \<Rightarrow> ''cell'')"

definition no_constraints :: constraints where
  "no_constraints = \<lparr>snapToGrid = None, lockAxis = None, proportional = None\<rparr>"

definition getConstraintsForType :: "handle_type \<Rightarrow> constraints option" where
  "getConstraintsForType t =
     (case t of
        Resize \<Rightarrow> Some (no_constraints\<lparr>proportional := Some True\<rparr>)
      | Move \<Rightarrow> Some no_constraints
      | Rotate \<Rightarrow> Some no_constraints
      | Curve \<Rightarrow> Some no_constraints
      | Label \<Rightarrow> Some no_constraints
      | Snap \<Rightarrow> Some (no_constraints\<lparr>snapToGrid := Some True\<rparr>))"

definition createHandle ::
  "string \<Rightarrow> position \<Rightarrow> handle_type \<Rightarrow> handle_shape \<Rightarrow> position option \<Rightarrow> Handle" where
  "createHandle generatedId center type shape position =
     (let handlePosition = (case position of Some p \<Rightarrow> p | None \<Rightarrow> center)
      in \<lparr>h_id = generatedId, h_type = type, h_shape = shape, h_position = handlePosition,
          h_color = getColorForType type, h_size = 1, h_cursor = getCursorForType type,
          h_visible = True, h_draggable = True,
          h_constraints = getConstraintsForType type\<rparr>)"

subsection \<open>A manager with two handles, used to run the handlers on concrete input\<close>

definition origin :: position where
  "origin = \<lparr>lon = 0, lat = 0\<rparr>"

definition locked_handle :: Handle where
  "locked_handle =
     (createHandle ''handle-a'' origin Move Circle (Some \<lparr>lon = 2, lat = 3\<rparr>))
       \<lparr>h_constraints := Some (no_constraints\<lparr>lockAxis := Some X\<rparr>)\<rparr>"

definition snap_handle :: Handle where
  "snap_handle = createHandle ''handle-b'' origin Snap Diamond (Some \<lparr>lon = 1, lat = 1\<rparr>)"

definition two_handles :: HandleManager where
  "two_handles =
     on_h Drag 1 (on_h Dragstart 0 (addHandles [locked_handle, snap_handle] new_HandleManager))"

definition press :: "string \<Rightarrow> MapMouseEvent" where
  "press handleId = \<lparr>lngLat = origin, features = [Some handleId]\<rparr>"


section \<open>Selection (src/lib/selection/types.ts)\<close>

datatype geometry_type =
  Point | MultiPoint | LineString | MultiLineString | Polygon | MultiPolygon | GeometryCollection

text \<open>
  A GeoJSON feature: \<open>f_id\<close> is \<open>feature.id?.toString()\<close> (\<open>None\<close> for a feature without
  id), \<open>f_geometry_type\<close> is \<open>feature.geometry.type\<close>, and the coordinates and properties
  are a value of type \<open>'g\<close> that only the geometry library reads.
\<close>

record 'g Feature =
  f_id :: "string option"
  f_geometry_type :: geometry_type
  f_geometry :: 'g

type_synonym Bbox = "real \<times> real \<times> real \<times> real"

record 'g SelectedFeature =
  sf_id :: string
  sf_feature :: "'g Feature"
  sf_sourceId :: string
  sf_layerId :: string
  selected :: bool
  isCurrentSelection :: bool

record SelectionBounds =
  bbox :: Bbox
  center :: "real \<times> real"
  area :: real
  perimeter :: real

datatype SelectionEventType = Select | Deselect | Clear | Change

record 'g SelectionEvent =
  se_type :: SelectionEventType
  se_selected :: "'g SelectedFeature list"
  se_bounds :: "SelectionBounds option"

text \<open>
  The functions of the geometry library (turf) that the selection manager calls. They
  are third-party code and a parameter of the model. \<open>polygonToLine\<close> gives one line
  feature (\<open>Inl\<close>) or an array of them (\<open>Inr\<close>); \<open>turf_length\<close> is the length in metres.
\<close>

record 'g turf =
  turf_bbox :: "'g Feature list \<Rightarrow> Bbox"
  turf_center :: "'g Feature list \<Rightarrow> real \<times> real"
  turf_area :: "'g Feature \<Rightarrow> real"
  turf_polygonToLine :: "'g Feature \<Rightarrow> 'g Feature + 'g Feature list"
  turf_length :: "'g Feature \<Rightarrow> real"

section \<open>SelectionManager\<close>

record 'g SelectionManager =
  selectedFeatures :: "(string \<times> 'g SelectedFeature) list"
  eventListeners_s :: "SelectionEventType \<Rightarrow> listener list"
  selectionBounds :: "SelectionBounds option"
  notified_s :: "(listener \<times> 'g SelectionEvent) list"

definition new_SelectionManager :: "'g SelectionManager" where
  "new_SelectionManager =
     \<lparr>selectedFeatures = [], eventListeners_s = (\<lambda>_. []), selectionBounds = None,
      notified_s = []\<rparr>"

definition getSelection :: "'g SelectionManager \<Rightarrow> 'g SelectedFeature list" where
  "getSelection sm = map snd (selectedFeatures sm)"

definition getSelectionBounds :: "'g SelectionManager \<Rightarrow> SelectionBounds option" where
  "getSelectionBounds sm = selectionBounds sm"

definition on_s :: "SelectionEventType \<Rightarrow> listener \<Rightarrow> 'g SelectionManager \<Rightarrow> 'g SelectionManager" where
  "on_s type l sm =
     sm\<lparr>eventListeners_s := (eventListeners_s sm)(type := Set_add (eventListeners_s sm type) l)\<rparr>"

definition off_s :: "SelectionEventType \<Rightarrow> listener \<Rightarrow> 'g SelectionManager \<Rightarrow> 'g SelectionManager" where
  "off_s type l sm =
     sm\<lparr>eventListeners_s := (eventListeners_s sm)(type := Set_delete (eventListeners_s sm type) l)\<rparr>"

definition emitEvent_s ::
  "SelectionEventType \<Rightarrow> 'g SelectionEvent \<Rightarrow> 'g SelectionManager \<Rightarrow> 'g SelectionManager" where
  "emitEvent_s type event sm =
     (let listeners = eventListeners_s sm type;
          sm = sm\<lparr>notified_s := notified_s sm @ map (\<lambda>listener. (listener, event)) listeners\<rparr>
      in if type \<noteq> Change
         then let changeListeners = eventListeners_s sm Change
              in sm\<lparr>notified_s := notified_s sm @
                      map (\<lambda>listener. (listener, event\<lparr>se_type := Change\<rparr>)) changeListeners\<rparr>
         else sm)"

text \<open>The loop of \<open>calculateSelectionBounds\<close> that adds up area and perimeter.\<close>

definition add_area_perimeter :: "'g turf \<Rightarrow> 'g Feature \<Rightarrow> real \<times> real \<Rightarrow> real \<times> real" where
  "add_area_perimeter turf feature ap =
     (let (area, perimeter) = ap in
      if f_geometry_type feature = Polygon \<or> f_geometry_type feature = MultiPolygon
      then (area + turf_area turf feature,
            (case turf_polygonToLine turf feature of
               Inr lines \<Rightarrow> fold (\<lambda>line p. p + turf_length turf line) lines perimeter
             | Inl lines \<Rightarrow> perimeter + turf_length turf lines))
      else if f_geometry_type feature = LineString \<or> f_geometry_type feature = MultiLineString
      then (area, perimeter + turf_length turf feature)
      else (area, perimeter))"

definition calculateSelectionBounds :: "'g turf \<Rightarrow> 'g SelectionManager \<Rightarrow> SelectionBounds option" where
  "calculateSelectionBounds turf sm =
     (if length (selectedFeatures sm) = 0 then None
      else
        let features = map (\<lambda>s. sf_feature s) (map snd (selectedFeatures sm));
            (area, perimeter) = fold (add_area_perimeter turf) features (0, 0)
        in Some \<lparr>bbox = turf_bbox turf features, center = turf_center turf features,
                 area = area, perimeter = perimeter\<rparr>)"

text \<open>
  \<open>select\<close>. \<open>random\<close> is the text drawn by
  \<open>Math.random().toString(36).substring(2, 9)\<close>; an empty id text is falsy and gets
  the generated id too. The default \<open>setAsCurrent = true\<close> is the caller's to pass.
\<close>

definition select ::
  "'g turf \<Rightarrow> string \<Rightarrow> 'g Feature \<Rightarrow> string \<Rightarrow> string \<Rightarrow> bool \<Rightarrow> 'g SelectionManager
     \<Rightarrow> 'g SelectionManager \<times> 'g SelectedFeature" where
  "select turf random feature sourceId layerId setAsCurrent sm =
     (let featureId =
            (case f_id feature of
               Some s \<Rightarrow> if s \<noteq> [] then s else ''feature-'' @ random
             | None \<Rightarrow> ''feature-'' @ random);
          sm = (if setAsCurrent
                then sm\<lparr>selectedFeatures :=
                        map (\<lambda>(k, f). (k, f\<lparr>isCurrentSelection := False\<rparr>)) (selectedFeatures sm)\<rparr>
                else sm);
          selectedFeature =
            \<lparr>sf_id = featureId, sf_feature = feature, sf_sourceId = sourceId,
             sf_layerId = layerId, selected = True, isCurrentSelection = setAsCurrent\<rparr>;
          sm = sm\<lparr>selectedFeatures := AList.update featureId selectedFeature (selectedFeatures sm)\<rparr>;
          sm = sm\<lparr>selectionBounds := calculateSelectionBounds turf sm\<rparr>;
          sm = emitEvent_s Select
                 \<lparr>se_type = Select, se_selected = map snd (selectedFeatures sm),
                  se_bounds = selectionBounds sm\<rparr> sm
      in (sm, selectedFeature))"

definition deselect :: "'g turf \<Rightarrow> string \<Rightarrow> 'g SelectionManager \<Rightarrow> 'g SelectionManager \<times> bool" where
  "deselect turf featureId sm =
     (let removed = (map_of (selectedFeatures sm) featureId \<noteq> None);
          sm = sm\<lparr>selectedFeatures := AList.delete featureId (selectedFeatures sm)\<rparr>
      in if removed
         then let sm = sm\<lparr>selectionBounds := calculateSelectionBounds turf sm\<rparr>;
                  sm = emitEvent_s Deselect
                         \<lparr>se_type = Deselect, se_selected = map snd (selectedFeatures sm),
                          se_bounds = selectionBounds sm\<rparr> sm
              in (sm, removed)
         else (sm, removed))"

definition clearSelection :: "'g SelectionManager \<Rightarrow> 'g SelectionManager" where
  "clearSelection sm =
     (let sm = sm\<lparr>selectedFeatures := []\<rparr>;
          sm = sm\<lparr>selectionBounds := None\<rparr>
      in emitEvent_s Clear \<lparr>se_type = Clear, se_selected = [], se_bounds = None\<rparr> sm)"

text \<open>A sequence of public mutations, run from a given manager.\<close>

datatype 'g mutation =
  Call_select string "'g Feature" string string bool
  | Call_deselect string
  | Call_clearSelection

fun mutate :: "'g turf \<Rightarrow> 'g mutation \<Rightarrow> 'g SelectionManager \<Rightarrow> 'g SelectionManager" where
  "mutate turf (Call_select random feature sourceId layerId setAsCurrent) sm =
     fst (select turf random feature sourceId layerId setAsCurrent sm)"
| "mutate turf (Call_deselect featureId) sm = fst (deselect turf featureId sm)"
| "mutate turf Call_clearSelection sm = clearSelection sm"

definition mutations :: "'g turf \<Rightarrow> 'g mutation list \<Rightarrow> 'g SelectionManager \<Rightarrow> 'g SelectionManager" where
  "mutations turf ms sm = fold (mutate turf) ms sm"

subsection \<open>Concrete features and a stand-in geometry library\<close>

text \<open>Features whose geometry is a list of vertices, and a geometry library over them
  that is enough to run the manager: the box and centre of all vertices, and zero for
  area and length.\<close>

definition vertices :: "(real \<times> real) list Feature list \<Rightarrow> (real \<times> real) list" where
  "vertices fs = concat (map f_geometry fs)"

definition flat_turf :: "(real \<times> real) list turf" where
  "flat_turf =
     \<lparr>turf_bbox = (\<lambda>fs. (Min (set (map fst (vertices fs))), Min (set (map snd (vertices fs))),
                          Max (set (map fst (vertices fs))), Max (set (map snd (vertices fs))))),
      turf_center = (\<lambda>fs. ((Min (set (map fst (vertices fs))) + Max (set (map fst (vertices fs)))) / 2,
                            (Min (set (map snd (vertices fs))) + Max (set (map snd (vertices fs)))) / 2)),
      turf_area = (\<lambda>_. 0),
      turf_polygonToLine = (\<lambda>f. Inl f),
      turf_length = (\<lambda>_. 0)\<rparr>"

definition triangle :: "(real \<times> real) list Feature" where
  "triangle = \<lparr>f_id = Some ''F1'', f_geometry_type = Polygon,
               f_geometry = [(0, 0), (4, 0), (0, 3), (0, 0)]\<rparr>"

definition segment :: "(real \<times> real) list Feature" where
  "segment = \<lparr>f_id = Some ''F2'', f_geometry_type = LineString,
              f_geometry = [(1, 1), (6, 2)]\<rparr>"

definition listening :: "(real \<times> real) list SelectionManager" where
  "listening = on_s Change 3 (on_s Clear 2 (on_s Deselect 4 (on_s Change 1 new_SelectionManager)))"

section \<open>Tools (src/lib/tools/types.ts, BaseTool.ts)\<close>

datatype ToolState = Inactive | Active | Pending | Completed

datatype ToolEventType = Activate | Deactivate | Start | Update | Complete | Cancel

text \<open>
  Tools are objects with identity: the registry and the active-tool slot hold
  references to them. A reference is a natural number and \<open>objects\<close> is the store.
\<close>

type_synonym tool_ref = nat

record ToolEvent =
  te_type :: ToolEventType
  te_tool :: tool_ref
  te_state :: ToolState

text \<open>
  A listener of a tool is either a function of the application or one of the closures
  that \<open>registerTool\<close> installs, which passes the event on to the manager's own
  listeners. Each registration makes new closures; they are numbered.
\<close>

datatype tool_listener = Forwarder nat | Listener listener

text \<open>
  The fields of \<open>BaseTool\<close>, then the handle lists that \<open>SelectionTool\<close> of
  selection-tool.ts adds. The drag box of \<open>SelectionTool\<close> lives in the map renderer
  and is left out. \<open>activate\<close> and \<open>deactivate\<close> are the methods of \<open>BaseTool\<close>;
  the overrides in \<open>SelectionTool\<close> call them and, around the call, only set up or
  tear down the drag box and the tool's own subscriptions and handle lists.
\<close>

record Tool =
  t_id :: string
  t_name :: string
  t_type :: string
  t_cursor :: string
  t_state :: ToolState
  t_handles :: "Handle list"
  t_eventListeners :: "ToolEventType \<Rightarrow> tool_listener list"
  cornerHandles :: "Handle list"
  edgeHandles :: "Handle list"
  centerHandle :: "Handle option"

datatype tool_call = Called_activate tool_ref | Called_deactivate tool_ref | Called_destroy tool_ref

text \<open>
  The \<open>ToolManager\<close> with what its tools share: the store of tool objects, the handle
  manager, the cursor of the map's canvas and the map's centre. \<open>calls\<close> records each
  entry into \<open>activate\<close>, \<open>deactivate\<close> and \<open>destroy\<close> of a tool, in order;
  \<open>notified_t\<close> records the listener calls. The routing of pointer and keyboard events
  to the active tool is not needed here.
\<close>

record ToolManager =
  objects :: "tool_ref \<Rightarrow> Tool"
  handleManager :: HandleManager
  canvas_cursor :: string
  mapCenter :: position
  tools :: "(string \<times> tool_ref) list"
  activeTool :: "tool_ref option"
  eventListeners_t :: "ToolEventType \<Rightarrow> listener list"
  closures :: nat
  notified_t :: "(listener \<times> ToolEvent) list"
  calls :: "tool_call list"

definition new_BaseTool :: "string \<Rightarrow> Tool" where
  "new_BaseTool generatedId =
     \<lparr>t_id = ''tool-'' @ generatedId, t_name = ''Base Tool'', t_type = ''base'',
      t_cursor = ''default'', t_state = Inactive, t_handles = [],
      t_eventListeners = (\<lambda>_. []), cornerHandles = [], edgeHandles = [],
      centerHandle = None\<rparr>"

definition new_SelectionTool :: "string \<Rightarrow> Tool" where
  "new_SelectionTool generatedId =
     (new_BaseTool generatedId)
       \<lparr>t_id := ''selection-tool'', t_name := ''Selection Tool'', t_type := ''selection'',
        t_cursor := ''pointer''\<rparr>"

definition new_ToolManager :: "(tool_ref \<Rightarrow> Tool) \<Rightarrow> HandleManager \<Rightarrow> ToolManager" where
  "new_ToolManager store hm =
     \<lparr>objects = store, handleManager = hm, canvas_cursor = [], mapCenter = origin,
      tools = [], activeTool = None, eventListeners_t = (\<lambda>_. []), closures = 0,
      notified_t = [], calls = []\<rparr>"

definition update_tool :: "tool_ref \<Rightarrow> (Tool \<Rightarrow> Tool) \<Rightarrow> ToolManager \<Rightarrow> ToolManager" where
  "update_tool r f tm = tm\<lparr>objects := (objects tm)(r := f (objects tm r))\<rparr>"

definition on_tm :: "ToolEventType \<Rightarrow> listener \<Rightarrow> ToolManager \<Rightarrow> ToolManager" where
  "on_tm type l tm =
     tm\<lparr>eventListeners_t := (eventListeners_t tm)(type := Set_add (eventListeners_t tm type) l)\<rparr>"

definition emitEvent_tm :: "ToolEventType \<Rightarrow> ToolEvent \<Rightarrow> ToolManager \<Rightarrow> ToolManager" where
  "emitEvent_tm type event tm =
     tm\<lparr>notified_t := notified_t tm @ map (\<lambda>l. (l, event)) (eventListeners_t tm type)\<rparr>"

subsection \<open>BaseTool\<close>

definition on_t :: "tool_ref \<Rightarrow> ToolEventType \<Rightarrow> tool_listener \<Rightarrow> ToolManager \<Rightarrow> ToolManager" where
  "on_t r type l tm =
     update_tool r
       (\<lambda>t. t\<lparr>t_eventListeners := (t_eventListeners t)(type := Set_add (t_eventListeners t type) l)\<rparr>)
       tm"

definition call_listener :: "ToolEventType \<Rightarrow> ToolEvent \<Rightarrow> tool_listener \<Rightarrow> ToolManager \<Rightarrow> ToolManager" where
  "call_listener type event l tm =
     (case l of
        Forwarder _ \<Rightarrow> emitEvent_tm type event tm
      | Listener x \<Rightarrow> tm\<lparr>notified_t := notified_t tm @ [(x, event)]\<rparr>)"

definition emitEvent_t :: "tool_ref \<Rightarrow> ToolEventType \<Rightarrow> ToolEvent \<Rightarrow> ToolManager \<Rightarrow> ToolManager" where
  "emitEvent_t r type event tm =
     fold (call_listener type event) (t_eventListeners (objects tm r) type) tm"

definition clearHandles :: "tool_ref \<Rightarrow> ToolManager \<Rightarrow> ToolManager" where
  "clearHandles r tm =
     (let tm = tm\<lparr>handleManager :=
                   fold (\<lambda>handle hm. fst (removeHandle (h_id handle) hm))
                     (t_handles (objects tm r)) (handleManager tm)\<rparr>
      in update_tool r (\<lambda>t. t\<lparr>t_handles := []\<rparr>) tm)"

definition activate :: "tool_ref \<Rightarrow> ToolManager \<Rightarrow> ToolManager" where
  "activate r tm =
     (let tm = tm\<lparr>calls := calls tm @ [Called_activate r]\<rparr>
      in if t_state (objects tm r) \<noteq> Inactive then tm
         else
           let tm = update_tool r (\<lambda>t. t\<lparr>t_state := Active\<rparr>) tm;
               tm = tm\<lparr>canvas_cursor := t_cursor (objects tm r)\<rparr>
           in emitEvent_t r Activate
                \<lparr>te_type = Activate, te_tool = r, te_state = t_state (objects tm r)\<rparr> tm)"

definition deactivate :: "tool_ref \<Rightarrow> ToolManager \<Rightarrow> ToolManager" where
  "deactivate r tm =
     (let tm = tm\<lparr>calls := calls tm @ [Called_deactivate r]\<rparr>
      in if t_state (objects tm r) = Inactive then tm
         else
           let tm = clearHandles r tm;
               tm = tm\<lparr>canvas_cursor := []\<rparr>;
               tm = update_tool r (\<lambda>t. t\<lparr>t_state := Inactive\<rparr>) tm
           in emitEvent_t r Deactivate
                \<lparr>te_type = Deactivate, te_tool = r, te_state = t_state (objects tm r)\<rparr> tm)"

definition destroy :: "tool_ref \<Rightarrow> ToolManager \<Rightarrow> ToolManager" where
  "destroy r tm =
     (let tm = tm\<lparr>calls := calls tm @ [Called_destroy r]\<rparr>;
          tm = clearHandles r tm
      in update_tool r (\<lambda>t. t\<lparr>t_eventListeners := (\<lambda>_. [])\<rparr>) tm)"

subsection \<open>ToolManager\<close>

definition toolEvents :: "ToolEventType list" where
  "toolEvents = [Activate, Deactivate, Start, Update, Complete, Cancel]"

text \<open>The body of the \<open>forEach\<close> in \<open>registerTool\<close>: a new closure is made and
  subscribed to the tool.\<close>

definition forward :: "tool_ref \<Rightarrow> ToolEventType \<Rightarrow> ToolManager \<Rightarrow> ToolManager" where
  "forward tool eventType tm =
     (on_t tool eventType (Forwarder (closures tm)) tm)\<lparr>closures := Suc (closures tm)\<rparr>"

definition registerTool :: "tool_ref \<Rightarrow> ToolManager \<Rightarrow> ToolManager" where
  "registerTool tool tm =
     (let tm = tm\<lparr>tools := AList.update (t_id (objects tm tool)) tool (tools tm)\<rparr>
      in fold (forward tool) toolEvents tm)"

definition deactivateTool :: "ToolManager \<Rightarrow> ToolManager \<times> bool" where
  "deactivateTool tm =
     (case activeTool tm of
        Some a \<Rightarrow> ((deactivate a tm)\<lparr>activeTool := None\<rparr>, True)
      | None \<Rightarrow> (tm, False))"

definition unregisterTool :: "string \<Rightarrow> ToolManager \<Rightarrow> ToolManager \<times> bool" where
  "unregisterTool toolId tm =
     (case map_of (tools tm) toolId of
        Some tool \<Rightarrow>
          let tm = (if activeTool tm = Some tool then fst (deactivateTool tm) else tm);
              tm = destroy tool tm
          in (tm\<lparr>tools := AList.delete toolId (tools tm)\<rparr>, True)
      | None \<Rightarrow> (tm, False))"

definition activateTool :: "string \<Rightarrow> ToolManager \<Rightarrow> ToolManager \<times> tool_ref option" where
  "activateTool toolId tm =
     (case map_of (tools tm) toolId of
        None \<Rightarrow> (tm, None)
      | Some tool \<Rightarrow>
          let tm = (case activeTool tm of Some a \<Rightarrow> deactivate a tm | None \<Rightarrow> tm);
              tm = activate tool tm;
              tm = tm\<lparr>activeTool := Some tool\<rparr>
          in (tm, Some tool))"

definition getActiveTool :: "ToolManager \<Rightarrow> tool_ref option" where
  "getActiveTool tm = activeTool tm"

section \<open>SelectionTool: handles around the selection\<close>





definition addHandle_bt ::
  "tool_ref \<Rightarrow> string \<Rightarrow> handle_type \<Rightarrow> handle_shape \<Rightarrow> position \<Rightarrow> ToolManager \<Rightarrow> ToolManager" where
  "addHandle_bt r generatedId type shape position tm =
     (let handle = createHandle generatedId (mapCenter tm) type shape (Some position);
          tm = tm\<lparr>handleManager := addHandle handle (handleManager tm)\<rparr>
      in update_tool r (\<lambda>t. t\<lparr>t_handles := t_handles t @ [handle]\<rparr>) tm)"

definition createHandlesForSelection_bt ::
  "tool_ref \<Rightarrow> (nat \<Rightarrow> string) \<Rightarrow> 'g SelectionManager \<Rightarrow> ToolManager \<Rightarrow> ToolManager" where
  "createHandlesForSelection_bt r generateId sm tm =
     (let tm = clearHandles r tm
      in case getSelectionBounds sm of
           None \<Rightarrow> tm
         | Some bounds \<Rightarrow>
             let (b0, b1, b2, b3) = bbox bounds;
                 nw = \<lparr>lon = b0, lat = b3\<rparr>;
                 ne = \<lparr>lon = b2, lat = b3\<rparr>;
                 se = \<lparr>lon = b2, lat = b1\<rparr>;
                 sw = \<lparr>lon = b0, lat = b1\<rparr>;
                 n = \<lparr>lon = (b0 + b2) / 2, lat = b3\<rparr>;
                 e = \<lparr>lon = b2, lat = (b1 + b3) / 2\<rparr>;
                 s = \<lparr>lon = (b0 + b2) / 2, lat = b1\<rparr>;
                 w = \<lparr>lon = b0, lat = (b1 + b3) / 2\<rparr>;
                 center = \<lparr>lon = fst (center bounds), lat = snd (center bounds)\<rparr>;
                 tm = addHandle_bt r (generateId 0) Resize Square nw tm;
                 tm = addHandle_bt r (generateId 1) Resize Square ne tm;
                 tm = addHandle_bt r (generateId 2) Resize Square se tm;
                 tm = addHandle_bt r (generateId 3) Resize Square sw tm;
                 tm = addHandle_bt r (generateId 4) Resize Circle n tm;
                 tm = addHandle_bt r (generateId 5) Resize Circle e tm;
                 tm = addHandle_bt r (generateId 6) Resize Circle s tm;
                 tm = addHandle_bt r (generateId 7) Resize Circle w tm;
                 tm = addHandle_bt r (generateId 8) Move Circle center tm
             in tm)"

subsection \<open>A registry with two tools (objects 0 and 2), used to run the operations on
  concrete input\<close>

definition tool_store :: "tool_ref \<Rightarrow> Tool" where
  "tool_store = (\<lambda>r. if r = 0 then new_SelectionTool ''sel'' else new_BaseTool ''abc'')"

definition registry :: ToolManager where
  "registry =
     on_tm Deactivate 8 (on_tm Activate 7
       (registerTool 2 (registerTool 0 (new_ToolManager tool_store new_HandleManager))))"

definition handle_names :: "nat \<Rightarrow> string" where
  "handle_names n = ''handle-'' @ replicate n (CHR ''x'')"

definition selected_triangle :: "(real \<times> real) list SelectionManager" where
  "selected_triangle =
     fst (select flat_turf ''r'' triangle ''source'' ''layer'' True new_SelectionManager)"

definition selecting :: ToolManager where
  "selecting =
     createHandlesForSelection_bt 0 handle_names selected_triangle
       (fst (activateTool ''selection-tool'' registry))"

section \<open>Properties of the drag state machine\<close>

lemma updateHandle_fields:
  "dragState (fst (updateHandle i p hm)) = dragState hm"
  "eventListeners (fst (updateHandle i p hm)) = eventListeners hm"
  "notified (fst (updateHandle i p hm)) = notified hm"
  "activeHandle (fst (updateHandle i p hm)) = activeHandle hm"
  by (simp_all add: updateHandle_def Let_def split: option.splits)

lemma spread_as_partial:
  "spread old (as_partial h) =
     h\<lparr>h_constraints := (case h_constraints h of None \<Rightarrow> h_constraints old | Some c \<Rightarrow> Some c)\<rparr>"
  by (simp add: spread_def as_partial_def split: option.splits)


lemma mousemove_notified:
  assumes "dragState hm = Some ds"
  shows "notified (mousemove e hm) =
           notified hm @ map (\<lambda>l. (l, \<lparr>he_type = Drag,
               he_handle = (ds_handle ds)\<lparr>h_position := applyConstraints hm (ds_handle ds) (lngLat e)\<rparr>,
               he_position = applyConstraints hm (ds_handle ds) (lngLat e)\<rparr>)) (eventListeners hm Drag)"
  using assms by (simp add: mousemove_def Let_def emitEvent_h_def updateHandle_fields)

lemma mousedown_hit:
  assumes "features e = Some handleId # fs" "map_of (handles hm) handleId = Some handle" "h_draggable handle"
  shows "mousedown e hm =
     hm\<lparr>activeHandle := Some handleId,
        dragState := Some \<lparr>ds_handle = handle, initialPosition = h_position handle,
                          currentPosition = h_position handle\<rparr>,
        notified := notified hm @ map (\<lambda>l. (l, \<lparr>he_type = Dragstart, he_handle = handle,
                            he_position = h_position handle\<rparr>)) (eventListeners hm Dragstart)\<rparr>"
  using assms by (simp add: mousedown_def emitEvent_h_def)



lemma two_handles_eval:
  "handles two_handles = [(''handle-a'', locked_handle), (''handle-b'', snap_handle)]"
  "dragState two_handles = None" "notified two_handles = []"
  "eventListeners two_handles Dragstart = [0]"
  "eventListeners two_handles Drag = [1]"
  by (simp_all add: two_handles_def on_h_def addHandles_def addHandle_def new_HandleManager_def
        Set_add_def locked_handle_def snap_handle_def createHandle_def)

lemma fixture_facts:
  "h_draggable locked_handle" "h_draggable snap_handle"
  "h_id locked_handle = ''handle-a''" "h_id snap_handle = ''handle-b''"
  "h_position locked_handle = \<lparr>lon = 2, lat = 3\<rparr>"
  "h_position snap_handle = \<lparr>lon = 1, lat = 1\<rparr>"
  "h_constraints locked_handle = Some (no_constraints\<lparr>lockAxis := Some X\<rparr>)"
  "h_constraints snap_handle = Some (no_constraints\<lparr>snapToGrid := Some True\<rparr>)"
  by (simp_all add: locked_handle_def snap_handle_def createHandle_def Let_def getConstraintsForType_def)

text \<open>
  Claim C3 as stated fails. With \<open>handle-a\<close> being dragged, a pointer-down over the
  draggable \<open>handle-b\<close> changes the drag session, and the dragstart listener is called a
  second time.
\<close>

theorem second_pointerdown_counterexample:
  "dragState (mousedown (press ''handle-a'') two_handles) \<noteq> None \<and>
   map_of (handles (mousedown (press ''handle-a'') two_handles)) ''handle-b'' = Some snap_handle \<and>
   h_draggable snap_handle \<and>
   dragState (mousedown (press ''handle-b'') (mousedown (press ''handle-a'') two_handles))
     \<noteq> dragState (mousedown (press ''handle-a'') two_handles) \<and>
   map (he_type \<circ> snd) (notified (mousedown (press ''handle-b'') (mousedown (press ''handle-a'') two_handles)))
     = [Dragstart, Dragstart]"
  by (simp add: mousedown_def press_def two_handles_eval emitEvent_h_def fixture_facts)


text \<open>
  Claim C3, amended. The manager has one slot for the drag session, so at most one
  handle is dragged at a time. A pointer-down over a draggable handle while a session
  exists is not ignored: the session is replaced by one for the pressed handle, whose
  initial and current position are that handle's position, \<open>activeHandle\<close> becomes its
  id, and every dragstart listener is called again. The set of handles and the
  listeners stay as they are.
\<close>

theorem pointerdown_during_drag_restarts:
  assumes "dragState hm = Some ds"
    and "features e = Some handleId # fs"
    and "map_of (handles hm) handleId = Some handle"
    and "h_draggable handle"
  shows "dragState (mousedown e hm) =
           Some \<lparr>ds_handle = handle, initialPosition = h_position handle,
                 currentPosition = h_position handle\<rparr>
         \<and> activeHandle (mousedown e hm) = Some handleId
         \<and> notified (mousedown e hm) =
             notified hm @
             map (\<lambda>l. (l, \<lparr>he_type = Dragstart, he_handle = handle,
                              he_position = h_position handle\<rparr>))
               (eventListeners hm Dragstart)
         \<and> handles (mousedown e hm) = handles hm
         \<and> eventListeners (mousedown e hm) = eventListeners hm"
  by (simp add: mousedown_hit [OF assms(2-4)])

text \<open>
  The amended claim C3 on the manager with two handles.
\<close>

theorem pointerdown_during_drag_restarts_witness:
  "dragState (mousedown (press ''handle-a'') two_handles) =
     Some \<lparr>ds_handle = locked_handle, initialPosition = \<lparr>lon = 2, lat = 3\<rparr>,
           currentPosition = \<lparr>lon = 2, lat = 3\<rparr>\<rparr>
   \<and> dragState (mousedown (press ''handle-b'') (mousedown (press ''handle-a'') two_handles)) =
     Some \<lparr>ds_handle = snap_handle, initialPosition = \<lparr>lon = 1, lat = 1\<rparr>,
           currentPosition = \<lparr>lon = 1, lat = 1\<rparr>\<rparr>
   \<and> length (notified (mousedown (press ''handle-b'') (mousedown (press ''handle-a'') two_handles))) = 2"
proof -
  let ?hm = "mousedown (press ''handle-a'') two_handles"
  have d: "dragState ?hm =
     Some \<lparr>ds_handle = locked_handle, initialPosition = \<lparr>lon = 2, lat = 3\<rparr>,
           currentPosition = \<lparr>lon = 2, lat = 3\<rparr>\<rparr>"
    by (simp add: mousedown_def press_def two_handles_eval emitEvent_h_def fixture_facts)
  have f: "features (press ''handle-b'') = Some ''handle-b'' # []"
    by (simp add: press_def)
  have m: "map_of (handles ?hm) ''handle-b'' = Some snap_handle"
    by (simp add: mousedown_def press_def two_handles_eval emitEvent_h_def fixture_facts)
  have n: "notified ?hm = [(0, \<lparr>he_type = Dragstart, he_handle = locked_handle,
                              he_position = \<lparr>lon = 2, lat = 3\<rparr>\<rparr>)]"
    and l: "eventListeners ?hm Dragstart = [0]"
    by (simp_all add: mousedown_def press_def two_handles_eval emitEvent_h_def fixture_facts)
  show ?thesis
    using pointerdown_during_drag_restarts [OF d f m fixture_facts(2)] d
    by (simp add: n l fixture_facts)
qed

lemma pointerdown_elsewhere_ignored:
  assumes "case features e of [] \<Rightarrow> True | None # _ \<Rightarrow> True
           | Some i # _ \<Rightarrow> (case map_of (handles hm) i of None \<Rightarrow> True | Some h \<Rightarrow> \<not> h_draggable h)"
  shows "mousedown e hm = hm"
  using assms by (auto simp: mousedown_def split: list.splits option.splits)







section \<open>Properties of the selection manager\<close>

lemma emitEvent_s_fields:
  "selectedFeatures (emitEvent_s t ev sm) = selectedFeatures sm"
  "selectionBounds (emitEvent_s t ev sm) = selectionBounds sm"
  "eventListeners_s (emitEvent_s t ev sm) = eventListeners_s sm"
  by (simp_all add: emitEvent_s_def Let_def)

lemma emitEvent_s_notified:
  "notified_s (emitEvent_s t ev sm) =
     notified_s sm @ map (\<lambda>l. (l, ev)) (eventListeners_s sm t) @
       (if t \<noteq> Change then map (\<lambda>l. (l, ev\<lparr>se_type := Change\<rparr>)) (eventListeners_s sm Change)
        else [])"
  by (simp add: emitEvent_s_def Let_def)

lemma calculateSelectionBounds_cong:
  "selectedFeatures sm = selectedFeatures sm' \<Longrightarrow>
     calculateSelectionBounds turf sm = calculateSelectionBounds turf sm'"
  by (simp add: calculateSelectionBounds_def)

lemma calculateSelectionBounds_None:
  "calculateSelectionBounds turf sm = None \<longleftrightarrow> selectedFeatures sm = []"
  by (simp add: calculateSelectionBounds_def Let_def split: prod.splits)

lemma select_selectedFeatures:
  "selectedFeatures (fst (select turf r f s l c sm)) =
     AList.update (sf_id (snd (select turf r f s l c sm))) (snd (select turf r f s l c sm))
       (if c then map (\<lambda>(k, f). (k, f\<lparr>isCurrentSelection := False\<rparr>)) (selectedFeatures sm)
        else selectedFeatures sm)"
  by (simp add: select_def Let_def emitEvent_s_fields)

lemma select_returns:
  "isCurrentSelection (snd (select turf r f s l c sm)) = c"
  "sf_feature (snd (select turf r f s l c sm)) = f"
  by (simp_all add: select_def Let_def)

lemma select_bounds:
  "selectionBounds (fst (select turf r f s l c sm)) =
     calculateSelectionBounds turf (fst (select turf r f s l c sm))"
  by (simp add: select_def Let_def emitEvent_s_fields calculateSelectionBounds_def)

lemma deselect_selectedFeatures:
  "selectedFeatures (fst (deselect turf k sm)) = AList.delete k (selectedFeatures sm)"
  by (simp add: deselect_def Let_def emitEvent_s_fields)

lemma delete_absent: "map_of xs k = None \<Longrightarrow> AList.delete k xs = xs"
  by (induction xs) (auto split: if_splits)

lemma deselect_bounds:
  assumes "selectionBounds sm = calculateSelectionBounds turf sm"
  shows "selectionBounds (fst (deselect turf k sm)) =
     calculateSelectionBounds turf (fst (deselect turf k sm))"
proof (cases "map_of (selectedFeatures sm) k")
  case None
  then show ?thesis
    using assms by (simp add: deselect_def Let_def delete_absent calculateSelectionBounds_def)
next
  case (Some a)
  then show ?thesis
    by (simp add: deselect_def Let_def emitEvent_s_fields calculateSelectionBounds_def)
qed

lemma clearSelection_fields:
  "selectedFeatures (clearSelection sm) = []"
  "selectionBounds (clearSelection sm) = None"
  by (simp_all add: clearSelection_def Let_def emitEvent_s_fields)

lemma mutate_bounds:
  assumes "selectionBounds sm = calculateSelectionBounds turf sm"
  shows "selectionBounds (mutate turf m sm) = calculateSelectionBounds turf (mutate turf m sm)"
proof (cases m)
  case (Call_select r f s l c)
  then show ?thesis by (simp add: select_bounds)
next
  case (Call_deselect k)
  then show ?thesis using assms by (simp add: deselect_bounds)
next
  case Call_clearSelection
  then show ?thesis by (simp add: clearSelection_fields calculateSelectionBounds_def)
qed

lemma mutations_snoc: "mutations turf (ms @ [m]) sm = mutate turf m (mutations turf ms sm)"
  by (simp add: mutations_def)

lemma mutations_bounds:
  "selectionBounds (mutations turf ms new_SelectionManager) =
     calculateSelectionBounds turf (mutations turf ms new_SelectionManager)"
proof (induction ms rule: rev_induct)
  case Nil
  show ?case by (simp add: mutations_def new_SelectionManager_def calculateSelectionBounds_def)
next
  case (snoc m ms)
  then show ?case by (simp add: mutations_snoc mutate_bounds)
qed

text \<open>
  Claim C2. After every sequence of \<open>select\<close>, \<open>deselect\<close> and \<open>clearSelection\<close> on
  a new manager, \<open>getSelectionBounds()\<close> is what \<open>calculateSelectionBounds\<close> gives for
  the current selection set, and it is null if and only if \<open>getSelection()\<close> is
  empty.
\<close>

theorem bounds_null_iff_selection_empty:
  "getSelectionBounds (mutations turf ms new_SelectionManager) =
     calculateSelectionBounds turf (mutations turf ms new_SelectionManager)
   \<and> (getSelectionBounds (mutations turf ms new_SelectionManager) = None
        \<longleftrightarrow> getSelection (mutations turf ms new_SelectionManager) = [])"
  by (simp add: getSelectionBounds_def getSelection_def mutations_bounds
        calculateSelectionBounds_None)


lemma update_none_current:
  assumes "\<forall>x \<in> set xs. \<not> isCurrentSelection (snd x)"
  shows "filter isCurrentSelection (map snd (AList.update k v xs)) =
           (if isCurrentSelection v then [v] else [])"
  using assms by (induction xs) auto

lemma update_not_current:
  assumes "\<not> isCurrentSelection v"
  shows "length (filter isCurrentSelection (map snd (AList.update k v xs)))
           \<le> length (filter isCurrentSelection (map snd xs))"
  using assms by (induction xs) auto

lemma delete_current:
  "length (filter isCurrentSelection (map snd (AList.delete k xs)))
     \<le> length (filter isCurrentSelection (map snd xs))"
  by (induction xs) auto

lemma select_True_current:
  "filter isCurrentSelection (getSelection (fst (select turf r f s l True sm))) =
     [snd (select turf r f s l True sm)]"
proof -
  have "\<forall>x \<in> set (map (\<lambda>(k, f). (k, f\<lparr>isCurrentSelection := False\<rparr>)) (selectedFeatures sm)).
          \<not> isCurrentSelection (snd x)"
    by auto
  from update_none_current [OF this] show ?thesis
    unfolding getSelection_def select_selectedFeatures if_True
    by (simp only: select_returns if_True)
qed

lemma select_False_current:
  "length (filter isCurrentSelection (getSelection (fst (select turf r f s l False sm))))
     \<le> length (filter isCurrentSelection (getSelection sm))"
proof -
  have "\<not> isCurrentSelection (snd (select turf r f s l False sm))"
    by (simp add: select_returns)
  from update_not_current [OF this] show ?thesis
    unfolding getSelection_def select_selectedFeatures if_False .
qed

lemma mutate_current:
  assumes "length (filter isCurrentSelection (getSelection sm)) \<le> 1"
  shows "length (filter isCurrentSelection (getSelection (mutate turf m sm))) \<le> 1"
proof (cases m)
  case (Call_select r f s l c)
  show ?thesis
  proof (cases c)
    case True
    then have c: "c = True" by simp
    show ?thesis
      unfolding Call_select c mutate.simps select_True_current by simp
  next
    case False
    then have c: "c = False" by simp
    show ?thesis
      unfolding Call_select c mutate.simps
      using assms select_False_current [of turf r f s l sm] by (rule_tac order_trans)
  qed
next
  case (Call_deselect k)
  show ?thesis
    unfolding Call_deselect mutate.simps getSelection_def deselect_selectedFeatures
    using delete_current [of k "selectedFeatures sm"] assms [unfolded getSelection_def]
    by (rule order_trans)
next
  case Call_clearSelection
  show ?thesis
    unfolding Call_clearSelection mutate.simps getSelection_def clearSelection_fields by simp
qed

lemma mutations_current:
  "length (filter isCurrentSelection (getSelection (mutations turf ms new_SelectionManager))) \<le> 1"
proof (induction ms rule: rev_induct)
  case Nil
  show ?case by (simp add: mutations_def new_SelectionManager_def getSelection_def)
next
  case (snoc m ms)
  show ?case
    unfolding mutations_snoc using snoc by (rule mutate_current)
qed

lemma select_other_entries:
  assumes "k \<noteq> sf_id (snd (select turf r f s l c sm))"
  shows "map_of (selectedFeatures (fst (select turf r f s l c sm))) k =
           (if c then map_option (\<lambda>x. x\<lparr>isCurrentSelection := False\<rparr>)
                        (map_of (selectedFeatures sm) k)
            else map_of (selectedFeatures sm) k)"
proof -
  have m: "map_of (map (\<lambda>(k, f). (k, f\<lparr>isCurrentSelection := False\<rparr>)) (selectedFeatures sm)) k =
             map_option (\<lambda>x. x\<lparr>isCurrentSelection := False\<rparr>) (map_of (selectedFeatures sm) k)"
    by (simp add: map_of_map)
  show ?thesis
    using assms by (simp add: select_selectedFeatures update_conv' m)
qed

lemma select_own_entry:
  "map_of (selectedFeatures (fst (select turf r f s l c sm)))
     (sf_id (snd (select turf r f s l c sm))) = Some (snd (select turf r f s l c sm))"
  by (simp add: select_selectedFeatures update_conv')

lemma select_returned_id:
  "sf_id (snd (select turf r f s l c sm)) =
     (case f_id f of Some i \<Rightarrow> if i \<noteq> [] then i else ''feature-'' @ r
      | None \<Rightarrow> ''feature-'' @ r)"
  by (simp add: select_def Let_def)

text \<open>
  Claim C1, amended. After every sequence of \<open>select\<close>, \<open>deselect\<close> and
  \<open>clearSelection\<close> on a new manager at most one selected feature has
  \<open>isCurrentSelection = true\<close>. \<open>select\<close> stores the entry it returns under that
  entry's id, current exactly if \<open>setAsCurrent\<close> is true. With \<open>setAsCurrent = true\<close>
  every other entry is the entry it was with \<open>isCurrentSelection\<close> set to false, so
  the new entry is the only current one. With \<open>setAsCurrent = false\<close> every other
  entry, its flag included, is what it was before the call, so a feature that was
  current stays current and the number of current entries does not grow. \<open>deselect\<close>
  removes the entry of the given id and leaves the rest as it was, and
  \<open>clearSelection\<close> leaves no entry.
\<close>

theorem current_selection_at_most_one:
  "length (filter isCurrentSelection (getSelection (mutations turf ms new_SelectionManager))) \<le> 1
   \<and> map_of (selectedFeatures (fst (select turf r f s l c sm)))
         (sf_id (snd (select turf r f s l c sm))) = Some (snd (select turf r f s l c sm))
   \<and> isCurrentSelection (snd (select turf r f s l c sm)) = c
   \<and> (k \<noteq> sf_id (snd (select turf r f s l True sm)) \<longrightarrow>
        map_of (selectedFeatures (fst (select turf r f s l True sm))) k =
          map_option (\<lambda>x. x\<lparr>isCurrentSelection := False\<rparr>) (map_of (selectedFeatures sm) k))
   \<and> filter isCurrentSelection (getSelection (fst (select turf r f s l True sm))) =
        [snd (select turf r f s l True sm)]
   \<and> (k \<noteq> sf_id (snd (select turf r f s l False sm)) \<longrightarrow>
        map_of (selectedFeatures (fst (select turf r f s l False sm))) k =
          map_of (selectedFeatures sm) k)
   \<and> length (filter isCurrentSelection (getSelection (fst (select turf r f s l False sm))))
        \<le> length (filter isCurrentSelection (getSelection sm))
   \<and> map_of (selectedFeatures (fst (deselect turf k sm))) =
        (map_of (selectedFeatures sm))(k := None)
   \<and> getSelection (clearSelection sm) = []"
  using mutations_current [of turf ms] select_True_current [of turf r f s l sm]
    select_False_current [of turf r f s l sm] select_own_entry [of turf r f s l c sm]
    select_other_entries [of k turf r f s l True sm]
    select_other_entries [of k turf r f s l False sm]
  by (simp add: select_returns deselect_selectedFeatures delete_conv' getSelection_def
        clearSelection_fields)

text \<open>
  The amended claim C1 on the manager in which the triangle F1 has been selected as
  current, for a following \<open>select\<close> of the segment F2. With \<open>setAsCurrent = false\<close> the
  entry of F1 is untouched and still current, and F2 is stored as not current; with
  \<open>setAsCurrent = true\<close> the entry of F1 is no longer current and F2 is the only
  current entry. After the two calls \<open>select(F1, true)\<close>, \<open>select(F2, false)\<close> exactly
  one entry is current.
\<close>

theorem current_selection_at_most_one_witness:
  "''F1'' \<noteq> sf_id (snd (select flat_turf ''r2'' segment ''source'' ''layer'' False selected_triangle))
   \<and> ''F1'' \<noteq> sf_id (snd (select flat_turf ''r2'' segment ''source'' ''layer'' True selected_triangle))
   \<and> map_of (selectedFeatures
         (fst (select flat_turf ''r2'' segment ''source'' ''layer'' False selected_triangle))) ''F1'' =
       Some \<lparr>sf_id = ''F1'', sf_feature = triangle, sf_sourceId = ''source'',
             sf_layerId = ''layer'', selected = True, isCurrentSelection = True\<rparr>
   \<and> map_of (selectedFeatures
         (fst (select flat_turf ''r2'' segment ''source'' ''layer'' False selected_triangle))) ''F2'' =
       Some \<lparr>sf_id = ''F2'', sf_feature = segment, sf_sourceId = ''source'',
             sf_layerId = ''layer'', selected = True, isCurrentSelection = False\<rparr>
   \<and> map_of (selectedFeatures
         (fst (select flat_turf ''r2'' segment ''source'' ''layer'' True selected_triangle))) ''F1'' =
       Some \<lparr>sf_id = ''F1'', sf_feature = triangle, sf_sourceId = ''source'',
             sf_layerId = ''layer'', selected = True, isCurrentSelection = False\<rparr>
   \<and> filter isCurrentSelection
         (getSelection (fst (select flat_turf ''r2'' segment ''source'' ''layer'' True selected_triangle))) =
       [\<lparr>sf_id = ''F2'', sf_feature = segment, sf_sourceId = ''source'',
         sf_layerId = ''layer'', selected = True, isCurrentSelection = True\<rparr>]
   \<and> length (filter isCurrentSelection
         (getSelection
            (mutations flat_turf
               [Call_select ''r'' triangle ''source'' ''layer'' True,
                Call_select ''r2'' segment ''source'' ''layer'' False]
               new_SelectionManager))) = 1"
proof -
  let ?F = "select flat_turf ''r2'' segment ''source'' ''layer'' False selected_triangle"
  let ?T = "select flat_turf ''r2'' segment ''source'' ''layer'' True selected_triangle"
  have tri: "map_of (selectedFeatures selected_triangle) ''F1'' =
       Some \<lparr>sf_id = ''F1'', sf_feature = triangle, sf_sourceId = ''source'',
             sf_layerId = ''layer'', selected = True, isCurrentSelection = True\<rparr>"
    by (simp add: selected_triangle_def select_def Let_def emitEvent_s_fields
          new_SelectionManager_def triangle_def)
  have idF: "sf_id (snd ?F) = ''F2''" and idT: "sf_id (snd ?T) = ''F2''"
    by (simp_all add: select_returned_id segment_def)
  have newF: "snd ?F = \<lparr>sf_id = ''F2'', sf_feature = segment, sf_sourceId = ''source'',
             sf_layerId = ''layer'', selected = True, isCurrentSelection = False\<rparr>"
    and newT: "snd ?T = \<lparr>sf_id = ''F2'', sf_feature = segment, sf_sourceId = ''source'',
             sf_layerId = ''layer'', selected = True, isCurrentSelection = True\<rparr>"
    by (simp_all add: select_def Let_def segment_def)
  have neF: "''F1'' \<noteq> sf_id (snd ?F)" and neT: "''F1'' \<noteq> sf_id (snd ?T)"
    by (simp_all add: idF idT)
  have run: "mutations flat_turf
               [Call_select ''r'' triangle ''source'' ''layer'' True,
                Call_select ''r2'' segment ''source'' ''layer'' False]
               new_SelectionManager = fst ?F"
    by (simp add: mutations_def selected_triangle_def)
  have two: "map_of (selectedFeatures (fst ?F)) ''F1'' = map_of (selectedFeatures selected_triangle) ''F1''"
    and own: "map_of (selectedFeatures (fst ?F)) (sf_id (snd ?F)) = Some (snd ?F)"
    and cleared: "map_of (selectedFeatures (fst ?T)) ''F1'' =
       map_option (\<lambda>x. x\<lparr>isCurrentSelection := False\<rparr>) (map_of (selectedFeatures selected_triangle) ''F1'')"
    and only: "filter isCurrentSelection (getSelection (fst ?T)) = [snd ?T]"
    and bound: "length (filter isCurrentSelection (getSelection
         (mutations flat_turf
               [Call_select ''r'' triangle ''source'' ''layer'' True,
                Call_select ''r2'' segment ''source'' ''layer'' False]
               new_SelectionManager))) \<le> 1"
    using current_selection_at_most_one
            [of flat_turf "[Call_select ''r'' triangle ''source'' ''layer'' True,
                Call_select ''r2'' segment ''source'' ''layer'' False]"
                "''r2''" segment "''source''" "''layer''" False selected_triangle "''F1''"]
          neF neT
    by simp_all
  have sel: "selectedFeatures (fst ?F) =
      [(''F1'', \<lparr>sf_id = ''F1'', sf_feature = triangle, sf_sourceId = ''source'',
                 sf_layerId = ''layer'', selected = True, isCurrentSelection = True\<rparr>),
       (''F2'', \<lparr>sf_id = ''F2'', sf_feature = segment, sf_sourceId = ''source'',
                 sf_layerId = ''layer'', selected = True, isCurrentSelection = False\<rparr>)]"
    by (simp add: selected_triangle_def select_def Let_def emitEvent_s_fields
          new_SelectionManager_def triangle_def segment_def)
  have one: "length (filter isCurrentSelection (getSelection (fst ?F))) = 1"
    by (simp add: getSelection_def sel)
  show ?thesis
    using neF neT two own cleared only
    by (simp add: tri idF newF newT run one)
qed

text \<open>
  Claim C1 as stated fails in its parenthesis. After \<open>select(F1, true)\<close> and
  \<open>select(F2, false)\<close> the most recent select used \<open>setAsCurrent = false\<close>, and F1
  is still current.
\<close>

theorem current_survives_select_false_counterexample:
  "map isCurrentSelection
     (getSelection
        (mutations flat_turf
           [Call_select ''r1'' triangle ''source'' ''layer'' True,
            Call_select ''r2'' segment ''source'' ''layer'' False]
           new_SelectionManager)) = [True, False]"
  by (simp add: mutations_def select_def Let_def emitEvent_s_fields getSelection_def
        new_SelectionManager_def triangle_def segment_def)

text \<open>
  Claim C9. \<open>select\<close>, \<open>deselect\<close> of an id that is selected, and \<open>clearSelection\<close>
  call the listeners of their own event type first, in registration order, with the
  payload made of the type, the new selection and the new bounds, and then the change
  listeners with the same payload but the type \<open>change\<close>. Emitting \<open>change\<close> itself
  calls the change listeners once, with the payload as it is.
\<close>

theorem change_follows_specific_event:
  "notified_s (fst (select turf r f s l c sm)) =
     notified_s sm
     @ map (\<lambda>x. (x, \<lparr>se_type = Select,
                      se_selected = getSelection (fst (select turf r f s l c sm)),
                      se_bounds = getSelectionBounds (fst (select turf r f s l c sm))\<rparr>))
         (eventListeners_s sm Select)
     @ map (\<lambda>x. (x, \<lparr>se_type = Change,
                      se_selected = getSelection (fst (select turf r f s l c sm)),
                      se_bounds = getSelectionBounds (fst (select turf r f s l c sm))\<rparr>))
         (eventListeners_s sm Change)
   \<and> (map_of (selectedFeatures sm) k \<noteq> None \<longrightarrow>
       notified_s (fst (deselect turf k sm)) =
         notified_s sm
         @ map (\<lambda>x. (x, \<lparr>se_type = Deselect,
                          se_selected = getSelection (fst (deselect turf k sm)),
                          se_bounds = getSelectionBounds (fst (deselect turf k sm))\<rparr>))
             (eventListeners_s sm Deselect)
         @ map (\<lambda>x. (x, \<lparr>se_type = Change,
                          se_selected = getSelection (fst (deselect turf k sm)),
                          se_bounds = getSelectionBounds (fst (deselect turf k sm))\<rparr>))
             (eventListeners_s sm Change))
   \<and> notified_s (clearSelection sm) =
       notified_s sm
       @ map (\<lambda>x. (x, \<lparr>se_type = Clear, se_selected = getSelection (clearSelection sm),
                        se_bounds = getSelectionBounds (clearSelection sm)\<rparr>))
           (eventListeners_s sm Clear)
       @ map (\<lambda>x. (x, \<lparr>se_type = Change, se_selected = getSelection (clearSelection sm),
                        se_bounds = getSelectionBounds (clearSelection sm)\<rparr>))
           (eventListeners_s sm Change)
   \<and> notified_s (emitEvent_s Change ev sm) =
       notified_s sm @ map (\<lambda>x. (x, ev)) (eventListeners_s sm Change)"
  by (simp add: select_def deselect_def clearSelection_def Let_def emitEvent_s_notified
        emitEvent_s_fields getSelection_def getSelectionBounds_def)


lemma listening_eval:
  "selectedFeatures listening = []" "selectionBounds listening = None"
  "notified_s listening = []"
  "eventListeners_s listening Select = []"
  "eventListeners_s listening Deselect = [4]"
  "eventListeners_s listening Clear = [2]"
  "eventListeners_s listening Change = [1, 3]"
  by (simp_all add: listening_def on_s_def new_SelectionManager_def Set_add_def)

text \<open>
  Claim C9 on a manager with listeners 1 and 3 for \<open>change\<close> and 4 for \<open>deselect\<close>:
  the triangle is selected and then deselected.
\<close>

theorem change_follows_specific_event_witness:
  "map_of (selectedFeatures (fst (select flat_turf ''r'' triangle ''source'' ''layer'' True listening)))
     ''F1'' \<noteq> None
   \<and> map (\<lambda>(x, ev). (x, se_type ev, se_selected ev, se_bounds ev))
       (notified_s (fst (deselect flat_turf ''F1''
          (fst (select flat_turf ''r'' triangle ''source'' ''layer'' True listening)))))
     = [(1, Change, [\<lparr>sf_id = ''F1'', sf_feature = triangle, sf_sourceId = ''source'',
                       sf_layerId = ''layer'', selected = True, isCurrentSelection = True\<rparr>],
            calculateSelectionBounds flat_turf
              (fst (select flat_turf ''r'' triangle ''source'' ''layer'' True listening))),
        (3, Change, [\<lparr>sf_id = ''F1'', sf_feature = triangle, sf_sourceId = ''source'',
                       sf_layerId = ''layer'', selected = True, isCurrentSelection = True\<rparr>],
            calculateSelectionBounds flat_turf
              (fst (select flat_turf ''r'' triangle ''source'' ''layer'' True listening))),
        (4, Deselect, [], None), (1, Change, [], None), (3, Change, [], None)]"
proof -
  let ?sm = "fst (select flat_turf ''r'' triangle ''source'' ''layer'' True listening)"
  have sel: "selectedFeatures ?sm =
      [(''F1'', \<lparr>sf_id = ''F1'', sf_feature = triangle, sf_sourceId = ''source'',
                 sf_layerId = ''layer'', selected = True, isCurrentSelection = True\<rparr>)]"
    by (simp add: select_def Let_def emitEvent_s_fields listening_eval triangle_def)
  have ls: "eventListeners_s ?sm = eventListeners_s listening"
    by (simp add: select_def Let_def emitEvent_s_fields)
  have present: "map_of (selectedFeatures ?sm) ''F1'' \<noteq> None"
    by (simp add: sel)
  have after: "selectedFeatures (fst (deselect flat_turf ''F1'' ?sm)) = []"
    "selectionBounds (fst (deselect flat_turf ''F1'' ?sm)) = None"
    by (simp_all add: deselect_selectedFeatures deselect_bounds select_bounds sel
          calculateSelectionBounds_def)
  have before: "notified_s ?sm =
       map (\<lambda>x. (x, \<lparr>se_type = Change, se_selected = map snd (selectedFeatures ?sm),
                       se_bounds = calculateSelectionBounds flat_turf ?sm\<rparr>)) [1, 3]"
    using change_follows_specific_event [of flat_turf "''r''" triangle "''source''" "''layer''" True listening]
    by (simp add: listening_eval getSelection_def getSelectionBounds_def select_bounds)
  show ?thesis
    using change_follows_specific_event [of flat_turf _ _ _ _ _ ?sm "''F1''"] present
    by (simp add: ls listening_eval getSelection_def getSelectionBounds_def after before sel)
qed

text \<open>
  Claim C10. On an empty selection \<open>clearSelection\<close> has no failing branch: it
  returns the manager with the bounds null and with the clear listeners, then the
  change listeners, called on the payload with no selected feature and null bounds.
\<close>

theorem clearSelection_on_empty_emits:
  assumes "getSelection sm = []"
  shows "clearSelection sm =
           sm\<lparr>selectionBounds := None,
              notified_s := notified_s sm
                @ map (\<lambda>x. (x, \<lparr>se_type = Clear, se_selected = [], se_bounds = None\<rparr>))
                    (eventListeners_s sm Clear)
                @ map (\<lambda>x. (x, \<lparr>se_type = Change, se_selected = [], se_bounds = None\<rparr>))
                    (eventListeners_s sm Change)\<rparr>
         \<and> getSelection (clearSelection sm) = []
         \<and> getSelectionBounds (clearSelection sm) = None"
  using assms
  by (simp add: clearSelection_def Let_def emitEvent_s_def getSelection_def getSelectionBounds_def)

text \<open>
  Claim C10 on a manager with listener 2 for \<open>clear\<close> and listeners 1 and 3 for
  \<open>change\<close>.
\<close>

theorem clearSelection_on_empty_emits_witness:
  "getSelection listening = []
   \<and> notified_s (clearSelection listening) =
       [(2, \<lparr>se_type = Clear, se_selected = [], se_bounds = None\<rparr>),
        (1, \<lparr>se_type = Change, se_selected = [], se_bounds = None\<rparr>),
        (3, \<lparr>se_type = Change, se_selected = [], se_bounds = None\<rparr>)]
   \<and> getSelectionBounds (clearSelection listening) = None"
proof -
  have e: "getSelection listening = []"
    by (simp add: getSelection_def listening_eval)
  from clearSelection_on_empty_emits [OF e] have
    "notified_s (clearSelection listening) =
       [(2, \<lparr>se_type = Clear, se_selected = [], se_bounds = None\<rparr>),
        (1, \<lparr>se_type = Change, se_selected = [], se_bounds = None\<rparr>),
        (3, \<lparr>se_type = Change, se_selected = [], se_bounds = None\<rparr>)]"
    and "getSelectionBounds (clearSelection listening) = None"
    by (simp_all add: listening_eval getSelectionBounds_def)
  with e show ?thesis by simp
qed

section \<open>Properties of the tool manager and of the selection tool\<close>

lemma fold_call_listener_fields:
  "objects (fold (call_listener ty ev) ls tm) = objects tm"
  "handleManager (fold (call_listener ty ev) ls tm) = handleManager tm"
  "canvas_cursor (fold (call_listener ty ev) ls tm) = canvas_cursor tm"
  "mapCenter (fold (call_listener ty ev) ls tm) = mapCenter tm"
  "tools (fold (call_listener ty ev) ls tm) = tools tm"
  "activeTool (fold (call_listener ty ev) ls tm) = activeTool tm"
  "eventListeners_t (fold (call_listener ty ev) ls tm) = eventListeners_t tm"
  "closures (fold (call_listener ty ev) ls tm) = closures tm"
  "calls (fold (call_listener ty ev) ls tm) = calls tm"
  by (induction ls arbitrary: tm;
      simp add: call_listener_def emitEvent_tm_def split: tool_listener.splits)+

lemma emitEvent_t_fields:
  "objects (emitEvent_t r ty ev tm) = objects tm"
  "handleManager (emitEvent_t r ty ev tm) = handleManager tm"
  "canvas_cursor (emitEvent_t r ty ev tm) = canvas_cursor tm"
  "mapCenter (emitEvent_t r ty ev tm) = mapCenter tm"
  "tools (emitEvent_t r ty ev tm) = tools tm"
  "activeTool (emitEvent_t r ty ev tm) = activeTool tm"
  "eventListeners_t (emitEvent_t r ty ev tm) = eventListeners_t tm"
  "closures (emitEvent_t r ty ev tm) = closures tm"
  "calls (emitEvent_t r ty ev tm) = calls tm"
  by (simp_all add: emitEvent_t_def fold_call_listener_fields)

lemma call_listener_notified:
  "eventListeners_t (call_listener ty ev l tm) = eventListeners_t tm"
  "notified_t (call_listener ty ev l tm) =
     notified_t tm @ (case l of Forwarder _ \<Rightarrow> map (\<lambda>x. (x, ev)) (eventListeners_t tm ty)
                             | Listener x \<Rightarrow> [(x, ev)])"
  by (simp_all add: call_listener_def emitEvent_tm_def split: tool_listener.splits)

lemma fold_call_listener_notified:
  "notified_t (fold (call_listener ty ev) ls tm) =
     notified_t tm @
     concat (map (\<lambda>l. case l of Forwarder _ \<Rightarrow> map (\<lambda>x. (x, ev)) (eventListeners_t tm ty)
                              | Listener x \<Rightarrow> [(x, ev)]) ls)"
proof (induction ls arbitrary: tm)
  case Nil
  show ?case by simp
next
  case (Cons l ls)
  show ?case
    by (simp add: Cons call_listener_notified cong: tool_listener.case_cong)
qed

lemma emitEvent_t_notified:
  "notified_t (emitEvent_t r ty ev tm) =
     notified_t tm @
     concat (map (\<lambda>l. case l of Forwarder _ \<Rightarrow> map (\<lambda>x. (x, ev)) (eventListeners_t tm ty)
                              | Listener x \<Rightarrow> [(x, ev)]) (t_eventListeners (objects tm r) ty))"
  by (simp add: emitEvent_t_def fold_call_listener_notified)

lemma clearHandles_fields:
  "objects (clearHandles r tm) = (objects tm)(r := (objects tm r)\<lparr>t_handles := []\<rparr>)"
  "handleManager (clearHandles r tm) =
     fold (\<lambda>handle hm. fst (removeHandle (h_id handle) hm)) (t_handles (objects tm r)) (handleManager tm)"
  "canvas_cursor (clearHandles r tm) = canvas_cursor tm"
  "mapCenter (clearHandles r tm) = mapCenter tm"
  "tools (clearHandles r tm) = tools tm"
  "activeTool (clearHandles r tm) = activeTool tm"
  "eventListeners_t (clearHandles r tm) = eventListeners_t tm"
  "calls (clearHandles r tm) = calls tm"
  "notified_t (clearHandles r tm) = notified_t tm"
  by (simp_all add: clearHandles_def update_tool_def Let_def)

lemma deactivate_fields:
  "calls (deactivate r tm) = calls tm @ [Called_deactivate r]"
  "tools (deactivate r tm) = tools tm"
  "activeTool (deactivate r tm) = activeTool tm"
  "eventListeners_t (deactivate r tm) = eventListeners_t tm"
  "t_state (objects (deactivate r tm) r) = Inactive"
  "r' \<noteq> r \<Longrightarrow> objects (deactivate r tm) r' = objects tm r'"
  "t_eventListeners (objects (deactivate r tm) r') = t_eventListeners (objects tm r')"
  "t_cursor (objects (deactivate r tm) r') = t_cursor (objects tm r')"
  by (simp_all add: deactivate_def Let_def emitEvent_t_fields update_tool_def clearHandles_fields)

lemma deactivate_active:
  assumes "t_state (objects tm r) \<noteq> Inactive"
  shows "objects (deactivate r tm) = (objects tm)(r := (objects tm r)\<lparr>t_handles := [], t_state := Inactive\<rparr>)"
    and "handleManager (deactivate r tm) =
          fold (\<lambda>handle hm. fst (removeHandle (h_id handle) hm)) (t_handles (objects tm r)) (handleManager tm)"
    and "notified_t (deactivate r tm) =
          notified_t (emitEvent_t r Deactivate \<lparr>te_type = Deactivate, te_tool = r, te_state = Inactive\<rparr> tm)"
  using assms
  by (simp_all add: deactivate_def Let_def emitEvent_t_fields update_tool_def clearHandles_fields
        emitEvent_t_notified cong: tool_listener.case_cong)

lemma activate_fields:
  "calls (activate r tm) = calls tm @ [Called_activate r]"
  "tools (activate r tm) = tools tm"
  "activeTool (activate r tm) = activeTool tm"
  "eventListeners_t (activate r tm) = eventListeners_t tm"
  "handleManager (activate r tm) = handleManager tm"
  "mapCenter (activate r tm) = mapCenter tm"
  "t_state (objects (activate r tm) r) \<noteq> Inactive"
  "r' \<noteq> r \<Longrightarrow> objects (activate r tm) r' = objects tm r'"
  "t_handles (objects (activate r tm) r') = t_handles (objects tm r')"
  by (simp_all add: activate_def Let_def emitEvent_t_fields update_tool_def)

lemma activate_inactive:
  assumes "t_state (objects tm r) = Inactive"
  shows "objects (activate r tm) = (objects tm)(r := (objects tm r)\<lparr>t_state := Active\<rparr>)"
    and "canvas_cursor (activate r tm) = t_cursor (objects tm r)"
    and "notified_t (activate r tm) =
          notified_t (emitEvent_t r Activate \<lparr>te_type = Activate, te_tool = r, te_state = Active\<rparr> tm)"
  using assms
  by (simp_all add: activate_def Let_def emitEvent_t_fields update_tool_def emitEvent_t_notified
        cong: tool_listener.case_cong)

lemma activate_not_inactive:
  assumes "t_state (objects tm r) \<noteq> Inactive"
  shows "activate r tm = tm\<lparr>calls := calls tm @ [Called_activate r]\<rparr>"
  using assms by (simp add: activate_def Let_def)


text \<open>
  Claim C5, amended. \<open>BaseTool.activate\<close> on a tool that is not inactive does
  nothing. \<open>ToolManager.activateTool\<close> with the id of the active tool is not a no-op:
  it enters the tool's \<open>deactivate()\<close> and then its \<open>activate()\<close>; the tool's handles
  are removed from the handle manager and its handle list is emptied, its listeners
  receive a \<open>deactivate\<close> event and then an \<open>activate\<close> event, and the tool ends
  active and in the active slot.
\<close>

theorem activateTool_same_tool_restarts:
  assumes "map_of (tools tm) toolId = Some T"
    and "activeTool tm = Some T"
    and "t_state (objects tm T) \<noteq> Inactive"
  shows "calls (fst (activateTool toolId tm)) = calls tm @ [Called_deactivate T, Called_activate T]
       \<and> t_handles (objects (fst (activateTool toolId tm)) T) = []
       \<and> handleManager (fst (activateTool toolId tm)) =
           fold (\<lambda>handle hm. fst (removeHandle (h_id handle) hm))
             (t_handles (objects tm T)) (handleManager tm)
       \<and> notified_t (fst (activateTool toolId tm)) =
           notified_t
             (emitEvent_t T Activate \<lparr>te_type = Activate, te_tool = T, te_state = Active\<rparr>
                (emitEvent_t T Deactivate
                   \<lparr>te_type = Deactivate, te_tool = T, te_state = Inactive\<rparr> tm))
       \<and> t_state (objects (fst (activateTool toolId tm)) T) = Active
       \<and> getActiveTool (fst (activateTool toolId tm)) = Some T
       \<and> snd (activateTool toolId tm) = Some T
       \<and> activate T tm = tm\<lparr>calls := calls tm @ [Called_activate T]\<rparr>"
proof -
  let ?d = "deactivate T tm"
  have i: "t_state (objects ?d T) = Inactive" by (simp add: deactivate_fields)
  have r: "fst (activateTool toolId tm) = (activate T ?d)\<lparr>activeTool := Some T\<rparr>"
    "snd (activateTool toolId tm) = Some T"
    using assms(1,2) by (simp_all add: activateTool_def Let_def)
  show ?thesis
    unfolding r
    using assms(3)
    by (simp add: activate_fields activate_inactive [OF i] deactivate_fields
          deactivate_active [OF assms(3)] emitEvent_t_notified emitEvent_t_fields
          getActiveTool_def activate_not_inactive cong: tool_listener.case_cong)
qed



lemma createHandlesForSelection_bt_handles:
  assumes "getSelectionBounds sm = Some B" and "bbox B = (minX, minY, maxX, maxY)"
  shows "t_handles (objects (createHandlesForSelection_bt r g sm tm) r) =
           [createHandle (g 0) (mapCenter tm) Resize Square (Some \<lparr>lon = minX, lat = maxY\<rparr>),
            createHandle (g 1) (mapCenter tm) Resize Square (Some \<lparr>lon = maxX, lat = maxY\<rparr>),
            createHandle (g 2) (mapCenter tm) Resize Square (Some \<lparr>lon = maxX, lat = minY\<rparr>),
            createHandle (g 3) (mapCenter tm) Resize Square (Some \<lparr>lon = minX, lat = minY\<rparr>),
            createHandle (g 4) (mapCenter tm) Resize Circle (Some \<lparr>lon = (minX + maxX) / 2, lat = maxY\<rparr>),
            createHandle (g 5) (mapCenter tm) Resize Circle (Some \<lparr>lon = maxX, lat = (minY + maxY) / 2\<rparr>),
            createHandle (g 6) (mapCenter tm) Resize Circle (Some \<lparr>lon = (minX + maxX) / 2, lat = minY\<rparr>),
            createHandle (g 7) (mapCenter tm) Resize Circle (Some \<lparr>lon = minX, lat = (minY + maxY) / 2\<rparr>),
            createHandle (g 8) (mapCenter tm) Move Circle (Some \<lparr>lon = fst (center B), lat = snd (center B)\<rparr>)]"
  using assms
  by (simp add: createHandlesForSelection_bt_def Let_def addHandle_bt_def update_tool_def
        clearHandles_fields)

lemma createHandle_fields:
  "h_id (createHandle i c t s p) = i"
  "h_type (createHandle i c t s p) = t"
  "h_shape (createHandle i c t s p) = s"
  "h_position (createHandle i c t s (Some q)) = q"
  by (simp_all add: createHandle_def Let_def)


lemma createHandlesForSelection_bt_others:
  "tools (createHandlesForSelection_bt r g sm tm) = tools tm
   \<and> activeTool (createHandlesForSelection_bt r g sm tm) = activeTool tm
   \<and> eventListeners_t (createHandlesForSelection_bt r g sm tm) = eventListeners_t tm
   \<and> calls (createHandlesForSelection_bt r g sm tm) = calls tm
   \<and> notified_t (createHandlesForSelection_bt r g sm tm) = notified_t tm
   \<and> t_state (objects (createHandlesForSelection_bt r g sm tm) r') = t_state (objects tm r')
   \<and> t_eventListeners (objects (createHandlesForSelection_bt r g sm tm) r') =
       t_eventListeners (objects tm r')"
proof (cases "getSelectionBounds sm")
  case None
  then show ?thesis
    by (simp add: createHandlesForSelection_bt_def Let_def update_tool_def clearHandles_fields)
next
  case (Some B)
  obtain b0 b1 b2 b3 where b: "bbox B = (b0, b1, b2, b3)"
    by (cases "bbox B") auto
  show ?thesis
    by (simp add: createHandlesForSelection_bt_def Let_def Some b addHandle_bt_def
          update_tool_def clearHandles_fields)
qed

lemma forward_fields:
  "tools (forward tool ty tm) = tools tm"
  "activeTool (forward tool ty tm) = activeTool tm"
  "calls (forward tool ty tm) = calls tm"
  "notified_t (forward tool ty tm) = notified_t tm"
  "mapCenter (forward tool ty tm) = mapCenter tm"
  "canvas_cursor (forward tool ty tm) = canvas_cursor tm"
  "eventListeners_t (forward tool ty tm) = eventListeners_t tm"
  "handleManager (forward tool ty tm) = handleManager tm"
  "closures (forward tool ty tm) = Suc (closures tm)"
  "t_id (objects (forward tool ty tm) r) = t_id (objects tm r)"
  "t_cursor (objects (forward tool ty tm) r) = t_cursor (objects tm r)"
  "t_state (objects (forward tool ty tm) r) = t_state (objects tm r)"
  "t_handles (objects (forward tool ty tm) r) = t_handles (objects tm r)"
  "t_eventListeners (objects (forward tool ty tm) r) ty' =
     (if r = tool \<and> ty' = ty
      then Set_add (t_eventListeners (objects tm r) ty') (Forwarder (closures tm))
      else t_eventListeners (objects tm r) ty')"
  by (simp_all add: forward_def on_t_def update_tool_def)

lemma registerTool_fields:
  "tools (registerTool tool tm) = AList.update (t_id (objects tm tool)) tool (tools tm)"
  "activeTool (registerTool tool tm) = activeTool tm"
  "calls (registerTool tool tm) = calls tm"
  "notified_t (registerTool tool tm) = notified_t tm"
  "mapCenter (registerTool tool tm) = mapCenter tm"
  "canvas_cursor (registerTool tool tm) = canvas_cursor tm"
  "eventListeners_t (registerTool tool tm) = eventListeners_t tm"
  "handleManager (registerTool tool tm) = handleManager tm"
  "closures (registerTool tool tm) = closures tm + 6"
  "t_id (objects (registerTool tool tm) r) = t_id (objects tm r)"
  "t_cursor (objects (registerTool tool tm) r) = t_cursor (objects tm r)"
  "t_state (objects (registerTool tool tm) r) = t_state (objects tm r)"
  "t_handles (objects (registerTool tool tm) r) = t_handles (objects tm r)"
  "t_eventListeners (objects (registerTool tool tm) r) Activate =
     (if r = tool then Set_add (t_eventListeners (objects tm r) Activate) (Forwarder (closures tm))
      else t_eventListeners (objects tm r) Activate)"
  "t_eventListeners (objects (registerTool tool tm) r) Deactivate =
     (if r = tool
      then Set_add (t_eventListeners (objects tm r) Deactivate) (Forwarder (Suc (closures tm)))
      else t_eventListeners (objects tm r) Deactivate)"
  by (simp_all add: registerTool_def toolEvents_def Let_def forward_fields)

lemma registry_eval:
  "tools registry = [(''selection-tool'', 0), (''tool-abc'', 2)]"
  "activeTool registry = None"
  "calls registry = []"
  "notified_t registry = []"
  "mapCenter registry = origin"
  "eventListeners_t registry Activate = [7]"
  "eventListeners_t registry Deactivate = [8]"
  "handleManager registry = new_HandleManager"
  "t_state (objects registry 0) = Inactive"
  "t_state (objects registry 2) = Inactive"
  "t_cursor (objects registry 0) = ''pointer''"
  "t_handles (objects registry 0) = []"
  "t_eventListeners (objects registry 0) Activate = [Forwarder 0]"
  "t_eventListeners (objects registry 0) Deactivate = [Forwarder (Suc 0)]"
  "t_eventListeners (objects registry 2) Activate = [Forwarder 6]"
  "t_eventListeners (objects registry 2) Deactivate = [Forwarder 7]"
  by (simp_all add: registry_def on_tm_def registerTool_fields
        new_ToolManager_def tool_store_def new_SelectionTool_def new_BaseTool_def Set_add_def)

lemma activateTool_others:
  "tools (fst (activateTool i tm)) = tools tm"
  "eventListeners_t (fst (activateTool i tm)) = eventListeners_t tm"
  by (simp_all add: activateTool_def Let_def activate_fields deactivate_fields
        split: option.splits)

lemma first_activation:
  "activeTool (fst (activateTool ''selection-tool'' registry)) = Some 0"
  "calls (fst (activateTool ''selection-tool'' registry)) = [Called_activate 0]"
  "notified_t (fst (activateTool ''selection-tool'' registry)) =
     [(7, \<lparr>te_type = Activate, te_tool = 0, te_state = Active\<rparr>)]"
  "t_state (objects (fst (activateTool ''selection-tool'' registry)) 0) = Active"
  "t_state (objects (fst (activateTool ''selection-tool'' registry)) 2) = Inactive"
  "t_eventListeners (objects (fst (activateTool ''selection-tool'' registry)) r) =
     t_eventListeners (objects registry r)"
  "handleManager (fst (activateTool ''selection-tool'' registry)) = new_HandleManager"
  "t_handles (objects (fst (activateTool ''selection-tool'' registry)) 0) = []"
  "mapCenter (fst (activateTool ''selection-tool'' registry)) = origin"
  by (simp_all add: activateTool_def Let_def registry_eval activate_fields
        activate_inactive emitEvent_t_notified emitEvent_t_fields)

lemma selected_triangle_bounds:
  "getSelectionBounds selected_triangle =
     Some \<lparr>bbox = (0, 0, 4, 3), center = (2, 3 / 2), area = 0, perimeter = 0\<rparr>"
proof -
  have f: "selectedFeatures selected_triangle =
     [(''F1'', \<lparr>sf_id = ''F1'', sf_feature = triangle, sf_sourceId = ''source'',
                sf_layerId = ''layer'', selected = True, isCurrentSelection = True\<rparr>)]"
    by (simp add: selected_triangle_def select_def Let_def
          new_SelectionManager_def emitEvent_s_def triangle_def)
  have b: "turf_bbox flat_turf [triangle] = (0, 0, 4, 3)"
    and c: "turf_center flat_turf [triangle] = (2, 3 / 2)"
    by (simp_all add: flat_turf_def vertices_def triangle_def)
  have t: "f_geometry_type triangle = Polygon" by (simp add: triangle_def)
  have a: "add_area_perimeter flat_turf triangle (0, 0) = (0, 0)"
    by (simp add: add_area_perimeter_def t) (simp add: flat_turf_def)
  have "selectionBounds selected_triangle = calculateSelectionBounds flat_turf selected_triangle"
    unfolding selected_triangle_def by (rule select_bounds)
  then show ?thesis
    by (simp add: getSelectionBounds_def calculateSelectionBounds_def f b c a)
qed


lemma selecting_eval:
  "tools selecting = [(''selection-tool'', 0), (''tool-abc'', 2)]"
  "activeTool selecting = Some 0"
  "calls selecting = [Called_activate 0]"
  "notified_t selecting = [(7, \<lparr>te_type = Activate, te_tool = 0, te_state = Active\<rparr>)]"
  "eventListeners_t selecting Activate = [7]"
  "eventListeners_t selecting Deactivate = [8]"
  "t_state (objects selecting 0) = Active"
  "t_state (objects selecting 2) = Inactive"
  "t_eventListeners (objects selecting 0) Activate = [Forwarder 0]"
  "t_eventListeners (objects selecting 0) Deactivate = [Forwarder (Suc 0)]"
  "t_eventListeners (objects selecting 2) Activate = [Forwarder 6]"
  "t_eventListeners (objects selecting 2) Deactivate = [Forwarder 7]"
  unfolding selecting_def
  using createHandlesForSelection_bt_others
          [of 0 handle_names selected_triangle "fst (activateTool ''selection-tool'' registry)"]
  by (simp_all add: createHandlesForSelection_bt_others first_activation registry_eval
        activateTool_others)

lemma selecting_handles:
  "map (\<lambda>h. (h_id h, h_type h, h_shape h, h_position h)) (t_handles (objects selecting 0)) =
     [(''handle-'', Resize, Square, \<lparr>lon = 0, lat = 3\<rparr>),
      (''handle-x'', Resize, Square, \<lparr>lon = 4, lat = 3\<rparr>),
      (''handle-xx'', Resize, Square, \<lparr>lon = 4, lat = 0\<rparr>),
      (''handle-xxx'', Resize, Square, \<lparr>lon = 0, lat = 0\<rparr>),
      (''handle-xxxx'', Resize, Circle, \<lparr>lon = 2, lat = 3\<rparr>),
      (''handle-xxxxx'', Resize, Circle, \<lparr>lon = 4, lat = 3 / 2\<rparr>),
      (''handle-xxxxxx'', Resize, Circle, \<lparr>lon = 2, lat = 0\<rparr>),
      (''handle-xxxxxxx'', Resize, Circle, \<lparr>lon = 0, lat = 3 / 2\<rparr>),
      (''handle-xxxxxxxx'', Move, Circle, \<lparr>lon = 2, lat = 3 / 2\<rparr>)]"
proof -
  have b: "bbox \<lparr>bbox = (0, 0, 4, 3), center = (2, 3 / 2), area = 0, perimeter = 0\<rparr> = (0, 0, 4, 3)"
    by simp
  show ?thesis
    unfolding selecting_def
      createHandlesForSelection_bt_handles [OF selected_triangle_bounds b]
    by (simp add: createHandle_fields handle_names_def numeral_eq_Suc)
qed

lemma selecting_handle_ids:
  "map h_id (t_handles (objects selecting 0)) =
     [''handle-'', ''handle-x'', ''handle-xx'', ''handle-xxx'', ''handle-xxxx'', ''handle-xxxxx'',
      ''handle-xxxxxx'', ''handle-xxxxxxx'', ''handle-xxxxxxxx'']"
proof -
  have b: "bbox \<lparr>bbox = (0, 0, 4, 3), center = (2, 3 / 2), area = 0, perimeter = 0\<rparr> = (0, 0, 4, 3)"
    by simp
  show ?thesis
    unfolding selecting_def
      createHandlesForSelection_bt_handles [OF selected_triangle_bounds b]
    by (simp add: createHandle_fields handle_names_def numeral_eq_Suc)
qed


lemma createHandlesForSelection_bt_manager:
  assumes "getSelectionBounds sm = Some B"
  shows "handleManager (createHandlesForSelection_bt r g sm tm) =
           addHandles (t_handles (objects (createHandlesForSelection_bt r g sm tm) r))
             (handleManager (clearHandles r tm))"
proof -
  obtain b0 b1 b2 b3 where b: "bbox B = (b0, b1, b2, b3)"
    by (cases "bbox B") auto
  show ?thesis
    unfolding createHandlesForSelection_bt_handles [OF assms b]
    by (simp add: createHandlesForSelection_bt_def Let_def assms b addHandle_bt_def
          update_tool_def clearHandles_fields addHandles_def)
qed

lemma selecting_manager:
  "map fst (handles (handleManager selecting)) =
     [''handle-'', ''handle-x'', ''handle-xx'', ''handle-xxx'', ''handle-xxxx'', ''handle-xxxxx'',
      ''handle-xxxxxx'', ''handle-xxxxxxx'', ''handle-xxxxxxxx'']"
proof -
  have b: "bbox \<lparr>bbox = (0, 0, 4, 3), center = (2, 3 / 2), area = 0, perimeter = 0\<rparr> = (0, 0, 4, 3)"
    by simp
  show ?thesis
    unfolding selecting_def createHandlesForSelection_bt_manager [OF selected_triangle_bounds]
      createHandlesForSelection_bt_handles [OF selected_triangle_bounds b]
    by (simp add: clearHandles_fields first_activation registry_eval addHandles_def
          addHandle_def createHandle_fields new_HandleManager_def handle_names_def numeral_eq_Suc)
qed

lemma remove_all_handles:
  "set (map fst (handles hm)) \<subseteq> set (map h_id hs) \<Longrightarrow>
     handles (fold (\<lambda>handle hm. fst (removeHandle (h_id handle) hm)) hs hm) = []"
proof (induction hs arbitrary: hm)
  case Nil
  then show ?case by simp
next
  case (Cons h hs)
  have "set (map fst (handles (fst (removeHandle (h_id h) hm)))) \<subseteq> set (map h_id hs)"
    using Cons.prems by (auto simp: removeHandle_def Let_def AList.delete_eq)
  from Cons.IH [OF this] show ?case by simp
qed

lemma selecting_cleared:
  "handles (fold (\<lambda>handle hm. fst (removeHandle (h_id handle) hm))
              (t_handles (objects selecting 0)) (handleManager selecting)) = []"
  by (rule remove_all_handles) (simp only: selecting_handle_ids selecting_manager subset_refl)

text \<open>
  Claim C5 as stated fails. The selection tool is active and has nine handles;
  \<open>activateTool('selection-tool')\<close> enters its \<open>deactivate\<close> and \<open>activate\<close>, removes
  the nine handles and calls the manager's deactivate and activate listeners (8 and
  7).
\<close>

theorem reactivation_counterexample:
  "map_of (tools selecting) ''selection-tool'' = Some 0
   \<and> getActiveTool selecting = Some 0
   \<and> t_state (objects selecting 0) = Active
   \<and> length (t_handles (objects selecting 0)) = 9
   \<and> length (handles (handleManager selecting)) = 9
   \<and> t_handles (objects (fst (activateTool ''selection-tool'' selecting)) 0) = []
   \<and> handles (handleManager (fst (activateTool ''selection-tool'' selecting))) = []
   \<and> calls selecting = [Called_activate 0]
   \<and> calls (fst (activateTool ''selection-tool'' selecting)) =
       [Called_activate 0, Called_deactivate 0, Called_activate 0]
   \<and> notified_t selecting = [(7, \<lparr>te_type = Activate, te_tool = 0, te_state = Active\<rparr>)]
   \<and> notified_t (fst (activateTool ''selection-tool'' selecting)) =
       [(7, \<lparr>te_type = Activate, te_tool = 0, te_state = Active\<rparr>),
        (8, \<lparr>te_type = Deactivate, te_tool = 0, te_state = Inactive\<rparr>),
        (7, \<lparr>te_type = Activate, te_tool = 0, te_state = Active\<rparr>)]"
proof -
  have a: "t_state (objects selecting 0) \<noteq> Inactive" by (simp add: selecting_eval)
  have i: "t_state (objects (deactivate 0 selecting) 0) = Inactive"
    by (simp add: deactivate_fields)
  have r: "fst (activateTool ''selection-tool'' selecting) =
             (activate 0 (deactivate 0 selecting))\<lparr>activeTool := Some 0\<rparr>"
    by (simp add: activateTool_def Let_def selecting_eval)
  have n9: "length (t_handles (objects selecting 0)) = 9"
    using arg_cong [OF selecting_handle_ids, of length] by simp
  have m9: "length (handles (handleManager selecting)) = 9"
    using arg_cong [OF selecting_manager, of length] by simp
  show ?thesis
    unfolding r
    by (simp add: selecting_eval getActiveTool_def n9 m9 activate_fields activate_inactive [OF i]
          deactivate_fields deactivate_active [OF a] emitEvent_t_notified emitEvent_t_fields
          selecting_cleared cong: tool_listener.case_cong)
qed


text \<open>
  The amended claim C5 on the active selection tool.
\<close>

theorem activateTool_same_tool_restarts_witness:
  "map_of (tools selecting) ''selection-tool'' = Some 0
   \<and> activeTool selecting = Some 0
   \<and> t_state (objects selecting 0) \<noteq> Inactive
   \<and> calls (fst (activateTool ''selection-tool'' selecting)) =
       [Called_activate 0, Called_deactivate 0, Called_activate 0]
   \<and> t_handles (objects (fst (activateTool ''selection-tool'' selecting)) 0) = []
   \<and> handles (handleManager (fst (activateTool ''selection-tool'' selecting))) = []
   \<and> t_state (objects (fst (activateTool ''selection-tool'' selecting)) 0) = Active
   \<and> getActiveTool (fst (activateTool ''selection-tool'' selecting)) = Some 0"
proof -
  have t: "map_of (tools selecting) ''selection-tool'' = Some 0"
    and a: "activeTool selecting = Some 0"
    and s: "t_state (objects selecting 0) \<noteq> Inactive"
    by (simp_all add: selecting_eval)
  show ?thesis
    using activateTool_same_tool_restarts [OF t a s] t a s
    by (simp add: selecting_eval selecting_cleared)
qed




end
